theory Spec2Isabelle
  imports Main "HOL-Library.Word" "HOL-Library.Multiset"
begin

unbundle bit_operations_syntax

section \<open>Bytes, machine integers and outcomes\<close>

text \<open>
  A Go \<^verbatim>\<open>[]byte\<close> is a list of 8-bit words; \<^verbatim>\<open>nil\<close> and the empty slice are both
  the empty list (the code only ever takes their length and their elements).
  \<^verbatim>\<open>uint32\<close>, \<^verbatim>\<open>uint64\<close> and \<^verbatim>\<open>int64\<close> are words; the conversions
  \<^verbatim>\<open>int64(x)\<close> and \<^verbatim>\<open>uint64(x)\<close> keep the 64 bits, so both types are \<open>64 word\<close>,
  read as a signed number with \<open>sint\<close>. \<open>+\<close> on words wraps as Go's does.
\<close>

type_synonym byte = "8 word"
type_synonym bytes = "byte list"
type_synonym uint32 = "32 word"
type_synonym uint64 = "64 word"
type_synonym int64 = "64 word"

text \<open>
  A Go call either returns or panics. A panic is not an \<^verbatim>\<open>error\<close> value: nothing in
  this package recovers from it, so it ends the process.
\<close>

datatype 'a outcome = Return 'a | Panic

definition bindO :: "'a outcome \<Rightarrow> ('a \<Rightarrow> 'b outcome) \<Rightarrow> 'b outcome" where
  "bindO m f = (case m of Panic \<Rightarrow> Panic | Return x \<Rightarrow> f x)"

subsection \<open>encoding/binary, big endian\<close>

text \<open>
  \<^verbatim>\<open>binary.BigEndian.Uint32(b)\<close> starts with \<^verbatim>\<open>_ = b[3]\<close>, which panics (index out of
  range) on a slice of fewer than four bytes, \<^verbatim>\<open>nil\<close> included; a longer slice is read
  from its first four bytes. \<^verbatim>\<open>Uint64\<close> does the same with eight.
\<close>

definition Uint32 :: "bytes \<Rightarrow> uint32 outcome" where
  "Uint32 b =
     (if length b < 4 then Panic
      else Return (ucast (b ! 3) OR push_bit 8 (ucast (b ! 2)) OR
                   push_bit 16 (ucast (b ! 1)) OR push_bit 24 (ucast (b ! 0))))"

definition Uint64 :: "bytes \<Rightarrow> uint64 outcome" where
  "Uint64 b =
     (if length b < 8 then Panic
      else Return (ucast (b ! 7) OR push_bit 8 (ucast (b ! 6)) OR
                   push_bit 16 (ucast (b ! 5)) OR push_bit 24 (ucast (b ! 4)) OR
                   push_bit 32 (ucast (b ! 3)) OR push_bit 40 (ucast (b ! 2)) OR
                   push_bit 48 (ucast (b ! 1)) OR push_bit 56 (ucast (b ! 0))))"

text \<open>
  \<^verbatim>\<open>PutUint32(b, v)\<close> writes \<^verbatim>\<open>byte(v >> 24)\<close>, ..., \<^verbatim>\<open>byte(v)\<close> into \<^verbatim>\<open>b[0..3]\<close>.
  It panics on a shorter buffer; its only callers below pass \<^verbatim>\<open>make([]byte, 4)\<close> and
  \<^verbatim>\<open>make([]byte, 8)\<close>, so the model is the list update.
\<close>

definition PutUint32 :: "bytes \<Rightarrow> uint32 \<Rightarrow> bytes" where
  "PutUint32 b v =
     b[0 := ucast (drop_bit 24 v), 1 := ucast (drop_bit 16 v),
       2 := ucast (drop_bit 8 v), 3 := ucast v]"

definition PutUint64 :: "bytes \<Rightarrow> uint64 \<Rightarrow> bytes" where
  "PutUint64 b v =
     b[0 := ucast (drop_bit 56 v), 1 := ucast (drop_bit 48 v),
       2 := ucast (drop_bit 40 v), 3 := ucast (drop_bit 32 v),
       4 := ucast (drop_bit 24 v), 5 := ucast (drop_bit 16 v),
       6 := ucast (drop_bit 8 v), 7 := ucast v]"

definition u32ToB :: "uint32 \<Rightarrow> bytes" where
  "u32ToB v = PutUint32 (replicate 4 0) v"

definition i64ToB :: "int64 \<Rightarrow> bytes" where
  "i64ToB v = PutUint64 (replicate 8 0) v"

subsection \<open>strconv.FormatInt in base 10 and base64.StdEncoding\<close>

definition digit_char :: "nat \<Rightarrow> char" where
  "digit_char d = ''0123456789'' ! d"

function formatNat :: "nat \<Rightarrow> string" where
  "formatNat n = (if n < 10 then [digit_char n] else formatNat (n div 10) @ [digit_char (n mod 10)])"
  by pat_completeness auto
termination
  by (relation "measure (\<lambda>n. n)") auto

declare formatNat.simps [simp del]

definition FormatInt10 :: "int64 \<Rightarrow> string" where
  "FormatInt10 i =
     (if sint i < 0 then CHR ''-'' # formatNat (nat (- sint i)) else formatNat (nat (sint i)))"

definition encodeStd :: string where
  "encodeStd = ''ABCDEFGHIJKLMNOPQRSTUVWXYZabcdefghijklmnopqrstuvwxyz0123456789+/''"

definition b64 :: "nat \<Rightarrow> char" where
  "b64 i = encodeStd ! (i mod 64)"

text \<open>
  \<^verbatim>\<open>EncodeToString\<close>: every three bytes give \<^verbatim>\<open>val = b0<<16 | b1<<8 | b2\<close> and four
  characters \<^verbatim>\<open>encode[val>>18 & 0x3F]\<close>, ...; a rest of one or two bytes is padded with
  \<^verbatim>\<open>=\<close>.
\<close>

fun EncodeToString :: "bytes \<Rightarrow> string" where
  "EncodeToString [] = []"
| "EncodeToString [b0] =
     (let val = unat b0 * 65536
      in [b64 (val div 262144), b64 (val div 4096), CHR ''='', CHR ''=''])"
| "EncodeToString [b0, b1] =
     (let val = unat b0 * 65536 + unat b1 * 256
      in [b64 (val div 262144), b64 (val div 4096), b64 (val div 64), CHR ''=''])"
| "EncodeToString (b0 # b1 # b2 # src) =
     (let val = unat b0 * 65536 + unat b1 * 256 + unat b2
      in [b64 (val div 262144), b64 (val div 4096), b64 (val div 64), b64 val]
         @ EncodeToString src)"

section \<open>The ledger store: bolt\<close>

text \<open>
  The database is a set of named buckets, each a map from keys to byte strings. The
  panel keeps no nested buckets and uses only the keys below, so a key is a \<open>string\<close>
  (\<^verbatim>\<open>[]byte("UpCredit")\<close>) and a bucket name is a byte string (the UID as passed).
  Inside a transaction a \<^verbatim>\<open>*bolt.Bucket\<close> is a handle on the transaction's state: it
  is modelled by the bucket's name, \<^verbatim>\<open>nil\<close> by \<open>None\<close>. The errors are those the
  calls below can return on a store without nested buckets: \<^verbatim>\<open>CreateBucket\<close> refuses an
  empty name and an existing bucket, \<^verbatim>\<open>DeleteBucket\<close> a missing one, \<^verbatim>\<open>Put\<close> an empty
  or oversized key and an oversized value. Failures of the disk are not modelled.
\<close>

type_synonym bucket = "string \<rightharpoonup> bytes"
type_synonym store = "bytes \<rightharpoonup> bucket"

datatype error =
    ErrUserNotFound
  | ErrUserNotActive
  | ErrOverwriteBackup
  | ErrBucketExists
  | ErrBucketNameRequired
  | ErrBucketNotFound
  | ErrKeyRequired
  | ErrKeyTooLarge
  | ErrValueTooLarge
  | ErrCreateFile
  | ErrInvalidFile

definition MaxKeySize :: nat where
  "MaxKeySize = 32768"

definition MaxValueSize :: nat where
  "MaxValueSize = 2 ^ 31 - 2"

definition tx_Bucket :: "store \<Rightarrow> bytes \<Rightarrow> bytes option" where
  "tx_Bucket tx name = (case tx name of None \<Rightarrow> None | Some _ \<Rightarrow> Some name)"

definition tx_CreateBucket :: "store \<Rightarrow> bytes \<Rightarrow> error + store \<times> bytes" where
  "tx_CreateBucket tx name =
     (if length name = 0 then Inl ErrBucketNameRequired
      else case tx name of
             Some _ \<Rightarrow> Inl ErrBucketExists
           | None \<Rightarrow> Inr (tx(name \<mapsto> Map.empty), name))"

definition tx_DeleteBucket :: "store \<Rightarrow> bytes \<Rightarrow> error + store" where
  "tx_DeleteBucket tx name =
     (case tx name of
        None \<Rightarrow> Inl ErrBucketNotFound
      | Some _ \<Rightarrow> Inr (tx(name := None)))"

definition b_Get :: "store \<Rightarrow> bytes \<Rightarrow> string \<Rightarrow> bytes" where
  "b_Get tx b key =
     (case tx b of
        None \<Rightarrow> []
      | Some m \<Rightarrow> (case m key of None \<Rightarrow> [] | Some v \<Rightarrow> v))"

definition b_Put :: "store \<Rightarrow> bytes \<Rightarrow> string \<Rightarrow> bytes \<Rightarrow> error + store" where
  "b_Put tx b key v =
     (if length key = 0 then Inl ErrKeyRequired
      else if length key > MaxKeySize then Inl ErrKeyTooLarge
      else if length v > MaxValueSize then Inl ErrValueTooLarge
      else case tx b of
             None \<Rightarrow> Inr tx
           | Some m \<Rightarrow> Inr (tx(b \<mapsto> m(key \<mapsto> v))))"

text \<open>
  \<^verbatim>\<open>db.View(fn)\<close> runs \<^verbatim>\<open>fn\<close> on a read-only snapshot and returns what it returns.
  \<^verbatim>\<open>db.Update(fn)\<close> runs \<^verbatim>\<open>fn\<close> on a writable transaction; it commits when
  \<^verbatim>\<open>fn\<close> returns \<^verbatim>\<open>nil\<close> and rolls back when it returns an error. bolt runs one
  writable transaction at a time, so an \<^verbatim>\<open>Update\<close> is one atomic step on the store.
  A closure's assignments to captured variables are its result here.
\<close>

definition db_View :: "store \<Rightarrow> (store \<Rightarrow> 'a outcome) \<Rightarrow> 'a outcome" where
  "db_View d fn = fn d"

definition db_Update ::
  "store \<Rightarrow> (store \<Rightarrow> (error + store) outcome) \<Rightarrow> (error option \<times> store) outcome" where
  "db_Update d fn =
     (case fn d of
        Panic \<Rightarrow> Panic
      | Return (Inl err) \<Rightarrow> Return (Some err, d)
      | Return (Inr d') \<Rightarrow> Return (None, d'))"

text \<open>\<^verbatim>\<open>if err := ...; err != nil { return err }\<close> between two writes of one closure.\<close>

definition thenE :: "error + store \<Rightarrow> (store \<Rightarrow> error + store) \<Rightarrow> error + store" where
  "thenE r k = (case r of Inl err \<Rightarrow> Inl err | Inr tx \<Rightarrow> k tx)"

section \<open>UserInfo, the live User and the panel\<close>

record UserInfo =
  UID :: bytes
  SessionsCap :: uint32
  UpRate :: int64
  DownRate :: int64
  UpCredit :: int64
  DownCredit :: int64
  ExpiryTime :: int64

text \<open>The zero value of \<^verbatim>\<open>var uinfo UserInfo\<close>.\<close>

definition zeroUserInfo :: UserInfo where
  "zeroUserInfo =
     \<lparr>UID = [], SessionsCap = 0, UpRate = 0, DownRate = 0, UpCredit = 0, DownCredit = 0,
      ExpiryTime = 0\<rparr>"

text \<open>\<^verbatim>\<open>var arrUID [32]byte; copy(arrUID[:], UID)\<close>: the first 32 bytes, zero-filled.\<close>

definition toArrUID :: "bytes \<Rightarrow> bytes" where
  "toArrUID uid = take 32 uid @ replicate (32 - length uid) 0"

text \<open>
  Modelled from the spec: the type \<^verbatim>\<open>User\<close>, which \<^verbatim>\<open>userpanel.go\<close> uses and does not
  declare. Spec section 3: a live User is "a UID plus a valve" that "holds the live
  UpCredit/DownCredit, SessionsCap, UpRate, DownRate, ExpiryTime". \<open>live\<close> holds these;
  \<open>arrUID\<close> is the field \<^verbatim>\<open>u.arrUID\<close> that \<^verbatim>\<open>updateCredits\<close> reads, the UID in its
  32-byte form ("UID. 32-byte opaque identifier").
\<close>

record User =
  arrUID :: bytes
  live :: UserInfo

text \<open>
  Modelled from the spec: \<^verbatim>\<open>MakeUser\<close>, called and not defined in \<^verbatim>\<open>userpanel.go\<close>.
  Section 4.2: "construct a new User whose valve is initialised from UpCredit/DownCredit".
\<close>

definition MakeUser :: "UserInfo \<Rightarrow> User" where
  "MakeUser uinfo = \<lparr>arrUID = toArrUID (UID uinfo), live = uinfo\<rparr>"

text \<open>
  Modelled from the spec: the valve's \<^verbatim>\<open>GetRxCredit\<close>, not defined in \<^verbatim>\<open>userpanel.go\<close>.
  Section 4.2: RxCredit is "the credit counter decremented by uploads", the live UpCredit.
\<close>

definition GetRxCredit :: "User \<Rightarrow> int64" where
  "GetRxCredit u = UpCredit (live u)"

text \<open>
  Modelled from the spec: the valve's \<^verbatim>\<open>GetTxCredit\<close>, not defined in \<^verbatim>\<open>userpanel.go\<close>.
  Section 4.2: TxCredit is the counter decremented by downloads, the live DownCredit.
\<close>

definition GetTxCredit :: "User \<Rightarrow> int64" where
  "GetTxCredit u = DownCredit (live u)"

text \<open>
  Modelled from the spec: \<^verbatim>\<open>User.updateInfo\<close>, not defined in \<^verbatim>\<open>userpanel.go\<close>.
  Section 4.4: SyncMemFromDB is to "reload all fields from LS into the live User".
\<close>

definition User_updateInfo :: "User \<Rightarrow> UserInfo \<Rightarrow> User" where
  "User_updateInfo u uinfo =
     u\<lparr>live := (live u)\<lparr>SessionsCap := SessionsCap uinfo, UpRate := UpRate uinfo,
                          DownRate := DownRate uinfo, UpCredit := UpCredit uinfo,
                          DownCredit := DownCredit uinfo, ExpiryTime := ExpiryTime uinfo\<rparr>\<rparr>"

text \<open>
  Modelled from the spec: \<^verbatim>\<open>User.setSessionsCap\<close>, not defined in \<^verbatim>\<open>userpanel.go\<close>.
  Section 4.4: a setter is to "apply the same change to the live valve".
\<close>

definition User_setSessionsCap :: "User \<Rightarrow> uint32 \<Rightarrow> User" where
  "User_setSessionsCap u cap = u\<lparr>live := (live u)\<lparr>SessionsCap := cap\<rparr>\<rparr>"

text \<open>
  Modelled from the spec: \<^verbatim>\<open>User.setUpRate\<close>, not defined in \<^verbatim>\<open>userpanel.go\<close>.
  Section 4.4: a setter is to "apply the same change to the live valve".
\<close>

definition User_setUpRate :: "User \<Rightarrow> int64 \<Rightarrow> User" where
  "User_setUpRate u rate = u\<lparr>live := (live u)\<lparr>UpRate := rate\<rparr>\<rparr>"

text \<open>
  Modelled from the spec: \<^verbatim>\<open>User.setDownRate\<close>, not defined in \<^verbatim>\<open>userpanel.go\<close>.
  Section 4.4: a setter is to "apply the same change to the live valve".
\<close>

definition User_setDownRate :: "User \<Rightarrow> int64 \<Rightarrow> User" where
  "User_setDownRate u rate = u\<lparr>live := (live u)\<lparr>DownRate := rate\<rparr>\<rparr>"

text \<open>
  Modelled from the spec: \<^verbatim>\<open>User.setUpCredit\<close>, not defined in \<^verbatim>\<open>userpanel.go\<close>.
  Section 4.4: a setter is to "apply the same change to the live valve".
\<close>

definition User_setUpCredit :: "User \<Rightarrow> int64 \<Rightarrow> User" where
  "User_setUpCredit u n = u\<lparr>live := (live u)\<lparr>UpCredit := n\<rparr>\<rparr>"

text \<open>
  Modelled from the spec: \<^verbatim>\<open>User.setDownCredit\<close>, not defined in \<^verbatim>\<open>userpanel.go\<close>.
  Section 4.4: a setter is to "apply the same change to the live valve".
\<close>

definition User_setDownCredit :: "User \<Rightarrow> int64 \<Rightarrow> User" where
  "User_setDownCredit u n = u\<lparr>live := (live u)\<lparr>DownCredit := n\<rparr>\<rparr>"

text \<open>
  Modelled from the spec: \<^verbatim>\<open>User.setExpiryTime\<close>, not defined in \<^verbatim>\<open>userpanel.go\<close>.
  Section 4.4: a setter is to "apply the same change to the live valve".
\<close>

definition User_setExpiryTime :: "User \<Rightarrow> int64 \<Rightarrow> User" where
  "User_setExpiryTime u t = u\<lparr>live := (live u)\<lparr>ExpiryTime := t\<rparr>\<rparr>"

text \<open>
  Modelled from the spec: \<^verbatim>\<open>User.addUpCredit\<close>, not defined in \<^verbatim>\<open>userpanel.go\<close>.
  Section 4.4: "The equivalent update on the live valve is also a signed add."
\<close>

definition User_addUpCredit :: "User \<Rightarrow> int64 \<Rightarrow> User" where
  "User_addUpCredit u delta = u\<lparr>live := (live u)\<lparr>UpCredit := UpCredit (live u) + delta\<rparr>\<rparr>"

text \<open>
  Modelled from the spec: \<^verbatim>\<open>User.addDownCredit\<close>, not defined in \<^verbatim>\<open>userpanel.go\<close>.
  Section 4.4: "The equivalent update on the live valve is also a signed add."
\<close>

definition User_addDownCredit :: "User \<Rightarrow> int64 \<Rightarrow> User" where
  "User_addDownCredit u delta = u\<lparr>live := (live u)\<lparr>DownCredit := DownCredit (live u) + delta\<rparr>\<rparr>"

text \<open>
  What \<^verbatim>\<open>os.Stat\<close> and \<^verbatim>\<open>os.Create\<close> find at a path: a file (\<^verbatim>\<open>Stat\<close> succeeds); no
  file, in a directory where it can be created; no file and no way to create one
  (\<^verbatim>\<open>Stat\<close> fails with a not-exist error and so does \<^verbatim>\<open>Create\<close>); or a path
  \<^verbatim>\<open>Stat\<close> fails on with another error. A file written by \<^verbatim>\<open>tx.WriteTo\<close> holds the image
  of the whole store.
\<close>

datatype fentry = File store | NoFile | NoDir | NoAccess

text \<open>
  The panel with the part of the process state its pointers and paths refer to: \<open>db\<close>,
  \<open>bakRoot\<close> and \<open>activeUsers\<close> are the fields of \<^verbatim>\<open>Userpanel\<close> (the mutex is not
  modelled: every function below is one sequential step). A \<^verbatim>\<open>*User\<close> is an index into
  \<open>heap\<close>, the \<^verbatim>\<open>User\<close> objects allocated so far, so that two pointers to the same object
  are equal indices; \<open>files\<close> is the file system \<^verbatim>\<open>backupDB\<close> sees.
\<close>

record Userpanel =
  db :: store
  bakRoot :: string
  activeUsers :: "bytes \<rightharpoonup> nat"
  heap :: "User list"
  files :: "string \<Rightarrow> fentry"

text \<open>\<^verbatim>\<open>user := MakeUser(up, &uinfo)\<close> allocates a new object.\<close>

definition newUser :: "Userpanel \<Rightarrow> UserInfo \<Rightarrow> nat \<times> Userpanel" where
  "newUser up uinfo = (length (heap up), up\<lparr>heap := heap up @ [MakeUser uinfo]\<rparr>)"

text \<open>A method with receiver \<^verbatim>\<open>u *User\<close> that changes the object in place.\<close>

definition onUser :: "Userpanel \<Rightarrow> nat \<Rightarrow> (User \<Rightarrow> User) \<Rightarrow> Userpanel" where
  "onUser up u f = up\<lparr>heap := (heap up)[u := f (heap up ! u)]\<rparr>"

section \<open>The panel's operations\<close>

subsection \<open>The credit reconciler\<close>

text \<open>
  The closure of \<^verbatim>\<open>updateCredits\<close> for one user: both credits are written in one
  transaction, to the bucket named \<^verbatim>\<open>u.arrUID[:]\<close>.
\<close>

definition flushCredits :: "User \<Rightarrow> store \<Rightarrow> (error + store) outcome" where
  "flushCredits u tx =
     (case tx_Bucket tx (arrUID u) of
        None \<Rightarrow> Return (Inl ErrUserNotFound)
      | Some b \<Rightarrow>
          Return (thenE (b_Put tx b ''UpCredit'' (i64ToB (GetRxCredit u)))
                   (\<lambda>tx. b_Put tx b ''DownCredit'' (i64ToB (GetTxCredit u)))))"

text \<open>
  \<^verbatim>\<open>for _, u := range up.activeUsers\<close>: Go leaves the order of a map's iteration open, so
  the keys in the order they are visited are the argument \<open>order\<close>. The value of
  \<^verbatim>\<open>up.db.Update\<close> is dropped.
\<close>

fun updateCredits :: "Userpanel \<Rightarrow> bytes list \<Rightarrow> Userpanel outcome" where
  "updateCredits up [] = Return up"
| "updateCredits up (k # order) =
     (case activeUsers up k of
        None \<Rightarrow> updateCredits up order
      | Some u \<Rightarrow>
          bindO (db_Update (db up) (flushCredits (heap up ! u)))
            (\<lambda>(_, d). updateCredits (up\<lparr>db := d\<rparr>) order))"

subsection \<open>Backup\<close>

text \<open>
  \<^verbatim>\<open>os.Stat\<close> without an error means the file exists: the overwrite error. With a
  not-exist error the file is created, or the error of \<^verbatim>\<open>os.Create\<close> returned. With any
  other error \<^verbatim>\<open>bak\<close> stays \<^verbatim>\<open>nil\<close>, and \<^verbatim>\<open>tx.WriteTo\<close> returns the error of writing
  to a \<^verbatim>\<open>nil\<close> file. Otherwise the read transaction writes the store to the file.
\<close>

definition backupDB :: "Userpanel \<Rightarrow> string \<Rightarrow> error option \<times> Userpanel" where
  "backupDB up bakFileName =
     (let bakPath = bakRoot up @ ''/'' @ bakFileName in
      case files up bakPath of
        File _ \<Rightarrow> (Some ErrOverwriteBackup, up)
      | NoFile \<Rightarrow> (None, up\<lparr>files := (files up)(bakPath := File (db up))\<rparr>)
      | NoDir \<Rightarrow> (Some ErrCreateFile, up)
      | NoAccess \<Rightarrow> (Some ErrInvalidFile, up))"

subsection \<open>The active-user cache\<close>

definition adminUserInfo :: "bytes \<Rightarrow> UserInfo" where
  "adminUserInfo AdminUID =
     \<lparr>UID = AdminUID, SessionsCap = 1000000000, UpRate = 1000000000000,
      DownRate = 1000000000000, UpCredit = 1000000000000000,
      DownCredit = 1000000000000000, ExpiryTime = 1000000000000000\<rparr>"

definition GetAndActivateAdminUser :: "Userpanel \<Rightarrow> bytes \<Rightarrow> (error + nat) \<times> Userpanel" where
  "GetAndActivateAdminUser up AdminUID =
     (let arr = toArrUID AdminUID in
      case activeUsers up arr of
        Some user \<Rightarrow> (Inr user, up)
      | None \<Rightarrow>
          (let (user, up1) = newUser up (adminUserInfo AdminUID)
           in (Inr user, up1\<lparr>activeUsers := (activeUsers up1)(arr \<mapsto> user)\<rparr>)))"

text \<open>
  The six decoding lines that \<^verbatim>\<open>GetAndActivateUser\<close>, \<^verbatim>\<open>getUserInfo\<close> and
  \<^verbatim>\<open>syncMemFromDB\<close> repeat, in the source's order: the first field that \<^verbatim>\<open>Uint32\<close> or
  \<^verbatim>\<open>Uint64\<close> cannot index panics.
\<close>

definition readFields :: "store \<Rightarrow> bytes \<Rightarrow> bytes \<Rightarrow> UserInfo outcome" where
  "readFields tx b uid =
     bindO (Uint32 (b_Get tx b ''SessionsCap'')) (\<lambda>cap.
     bindO (Uint64 (b_Get tx b ''UpRate'')) (\<lambda>upRate.
     bindO (Uint64 (b_Get tx b ''DownRate'')) (\<lambda>downRate.
     bindO (Uint64 (b_Get tx b ''UpCredit'')) (\<lambda>upCredit.
     bindO (Uint64 (b_Get tx b ''DownCredit'')) (\<lambda>downCredit.
     bindO (Uint64 (b_Get tx b ''ExpiryTime'')) (\<lambda>expiryTime.
       Return \<lparr>UID = uid, SessionsCap = cap, UpRate = upRate, DownRate = downRate,
               UpCredit = upCredit, DownCredit = downCredit,
               ExpiryTime = expiryTime\<rparr>))))))"

text \<open>The read closure: \<^verbatim>\<open>ErrUserNotFound\<close> without a bucket, else the decoded fields.\<close>

definition loadUserInfo :: "bytes \<Rightarrow> store \<Rightarrow> (error + UserInfo) outcome" where
  "loadUserInfo uid tx =
     (case tx_Bucket tx uid of
        None \<Rightarrow> Return (Inl ErrUserNotFound)
      | Some b \<Rightarrow> bindO (readFields tx b uid) (\<lambda>uinfo. Return (Inr uinfo)))"

definition GetAndActivateUser ::
  "Userpanel \<Rightarrow> bytes \<Rightarrow> ((error + nat) \<times> Userpanel) outcome" where
  "GetAndActivateUser up uid =
     (let arr = toArrUID uid in
      case activeUsers up arr of
        Some user \<Rightarrow> Return (Inr user, up)
      | None \<Rightarrow>
          bindO (db_View (db up) (loadUserInfo uid)) (\<lambda>r.
            case r of
              Inl err \<Rightarrow> Return (Inl err, up)
            | Inr uinfo \<Rightarrow>
                (let (u, up1) = newUser up uinfo
                 in Return (Inr u, up1\<lparr>activeUsers := (activeUsers up1)(arr \<mapsto> u)\<rparr>))))"

definition delActiveUser :: "Userpanel \<Rightarrow> bytes \<Rightarrow> Userpanel" where
  "delActiveUser up uid = up\<lparr>activeUsers := (activeUsers up)(toArrUID uid := None)\<rparr>"

definition getActiveUser :: "Userpanel \<Rightarrow> bytes \<Rightarrow> nat option" where
  "getActiveUser up uid = activeUsers up (toArrUID uid)"

subsection \<open>Field writes\<close>

definition updateDBEntryUint32 ::
  "Userpanel \<Rightarrow> bytes \<Rightarrow> string \<Rightarrow> uint32 \<Rightarrow> (error option \<times> Userpanel) outcome" where
  "updateDBEntryUint32 up uid key v =
     bindO (db_Update (db up) (\<lambda>tx.
              case tx_Bucket tx uid of
                None \<Rightarrow> Return (Inl ErrUserNotFound)
              | Some b \<Rightarrow> Return (b_Put tx b key (u32ToB v))))
       (\<lambda>(err, d). Return (err, up\<lparr>db := d\<rparr>))"

definition updateDBEntryInt64 ::
  "Userpanel \<Rightarrow> bytes \<Rightarrow> string \<Rightarrow> int64 \<Rightarrow> (error option \<times> Userpanel) outcome" where
  "updateDBEntryInt64 up uid key v =
     bindO (db_Update (db up) (\<lambda>tx.
              case tx_Bucket tx uid of
                None \<Rightarrow> Return (Inl ErrUserNotFound)
              | Some b \<Rightarrow> Return (b_Put tx b key (i64ToB v))))
       (\<lambda>(err, d). Return (err, up\<lparr>db := d\<rparr>))"

subsection \<open>Remote control: reading, adding and deleting users\<close>

definition getUserInfo :: "Userpanel \<Rightarrow> bytes \<Rightarrow> (UserInfo \<times> error option) outcome" where
  "getUserInfo up uid =
     bindO (db_View (db up) (loadUserInfo uid)) (\<lambda>r.
       case r of
         Inl err \<Rightarrow> Return (zeroUserInfo, Some err)
       | Inr uinfo \<Rightarrow> Return (uinfo, None))"

definition addNewUser :: "Userpanel \<Rightarrow> UserInfo \<Rightarrow> (error option \<times> Userpanel) outcome" where
  "addNewUser up uinfo =
     bindO (db_Update (db up) (\<lambda>tx.
              case tx_CreateBucket tx (UID uinfo) of
                Inl err \<Rightarrow> Return (Inl err)
              | Inr (tx, b) \<Rightarrow>
                  Return
                    (thenE (b_Put tx b ''SessionsCap'' (u32ToB (SessionsCap uinfo))) (\<lambda>tx.
                     thenE (b_Put tx b ''UpRate'' (i64ToB (UpRate uinfo))) (\<lambda>tx.
                     thenE (b_Put tx b ''DownRate'' (i64ToB (DownRate uinfo))) (\<lambda>tx.
                     thenE (b_Put tx b ''UpCredit'' (i64ToB (UpCredit uinfo))) (\<lambda>tx.
                     thenE (b_Put tx b ''DownCredit'' (i64ToB (DownCredit uinfo))) (\<lambda>tx.
                       b_Put tx b ''ExpiryTime'' (i64ToB (ExpiryTime uinfo))))))))))
       (\<lambda>(err, d). Return (err, up\<lparr>db := d\<rparr>))"

text \<open>\<open>now\<close> is \<^verbatim>\<open>time.Now().Unix()\<close>.\<close>

definition bakFileName_of :: "int64 \<Rightarrow> bytes \<Rightarrow> string" where
  "bakFileName_of now uid = FormatInt10 now @ ''_pre_del_'' @ EncodeToString uid @ ''.bak''"

definition delUser :: "Userpanel \<Rightarrow> int64 \<Rightarrow> bytes \<Rightarrow> (error option \<times> Userpanel) outcome" where
  "delUser up now uid =
     (case backupDB up (bakFileName_of now uid) of
        (Some err, up1) \<Rightarrow> Return (Some err, up1)
      | (None, up1) \<Rightarrow>
          bindO (db_Update (db up1) (\<lambda>tx. Return (tx_DeleteBucket tx uid)))
            (\<lambda>(err, d). Return (err, up1\<lparr>db := d\<rparr>)))"

definition syncMemFromDB :: "Userpanel \<Rightarrow> bytes \<Rightarrow> (error option \<times> Userpanel) outcome" where
  "syncMemFromDB up uid =
     bindO (db_View (db up) (loadUserInfo uid)) (\<lambda>r.
       case r of
         Inl err \<Rightarrow> Return (Some err, up)
       | Inr uinfo \<Rightarrow>
           (case getActiveUser up uid of
              None \<Rightarrow> Return (Some ErrUserNotActive, up)
            | Some u \<Rightarrow> Return (None, onUser up u (\<lambda>usr. User_updateInfo usr uinfo))))"

subsection \<open>The setters: the store first, then the live user\<close>

definition setSessionsCap ::
  "Userpanel \<Rightarrow> bytes \<Rightarrow> uint32 \<Rightarrow> (error option \<times> Userpanel) outcome" where
  "setSessionsCap up uid cap =
     bindO (updateDBEntryUint32 up uid ''SessionsCap'' cap) (\<lambda>(err, up).
       case err of
         Some e \<Rightarrow> Return (Some e, up)
       | None \<Rightarrow>
           (case getActiveUser up uid of
              None \<Rightarrow> Return (None, up)
            | Some u \<Rightarrow> Return (None, onUser up u (\<lambda>usr. User_setSessionsCap usr cap))))"

definition setUpRate ::
  "Userpanel \<Rightarrow> bytes \<Rightarrow> int64 \<Rightarrow> (error option \<times> Userpanel) outcome" where
  "setUpRate up uid rate =
     bindO (updateDBEntryInt64 up uid ''UpRate'' rate) (\<lambda>(err, up).
       case err of
         Some e \<Rightarrow> Return (Some e, up)
       | None \<Rightarrow>
           (case getActiveUser up uid of
              None \<Rightarrow> Return (None, up)
            | Some u \<Rightarrow> Return (None, onUser up u (\<lambda>usr. User_setUpRate usr rate))))"

definition setDownRate ::
  "Userpanel \<Rightarrow> bytes \<Rightarrow> int64 \<Rightarrow> (error option \<times> Userpanel) outcome" where
  "setDownRate up uid rate =
     bindO (updateDBEntryInt64 up uid ''DownRate'' rate) (\<lambda>(err, up).
       case err of
         Some e \<Rightarrow> Return (Some e, up)
       | None \<Rightarrow>
           (case getActiveUser up uid of
              None \<Rightarrow> Return (None, up)
            | Some u \<Rightarrow> Return (None, onUser up u (\<lambda>usr. User_setDownRate usr rate))))"

definition setUpCredit ::
  "Userpanel \<Rightarrow> bytes \<Rightarrow> int64 \<Rightarrow> (error option \<times> Userpanel) outcome" where
  "setUpCredit up uid n =
     bindO (updateDBEntryInt64 up uid ''UpCredit'' n) (\<lambda>(err, up).
       case err of
         Some e \<Rightarrow> Return (Some e, up)
       | None \<Rightarrow>
           (case getActiveUser up uid of
              None \<Rightarrow> Return (None, up)
            | Some u \<Rightarrow> Return (None, onUser up u (\<lambda>usr. User_setUpCredit usr n))))"

definition setDownCredit ::
  "Userpanel \<Rightarrow> bytes \<Rightarrow> int64 \<Rightarrow> (error option \<times> Userpanel) outcome" where
  "setDownCredit up uid n =
     bindO (updateDBEntryInt64 up uid ''DownCredit'' n) (\<lambda>(err, up).
       case err of
         Some e \<Rightarrow> Return (Some e, up)
       | None \<Rightarrow>
           (case getActiveUser up uid of
              None \<Rightarrow> Return (None, up)
            | Some u \<Rightarrow> Return (None, onUser up u (\<lambda>usr. User_setDownCredit usr n))))"

definition setExpiryTime ::
  "Userpanel \<Rightarrow> bytes \<Rightarrow> int64 \<Rightarrow> (error option \<times> Userpanel) outcome" where
  "setExpiryTime up uid t =
     bindO (updateDBEntryInt64 up uid ''ExpiryTime'' t) (\<lambda>(err, up).
       case err of
         Some e \<Rightarrow> Return (Some e, up)
       | None \<Rightarrow>
           (case getActiveUser up uid of
              None \<Rightarrow> Return (None, up)
            | Some u \<Rightarrow> Return (None, onUser up u (\<lambda>usr. User_setExpiryTime usr t))))"

subsection \<open>Signed credit deltas\<close>

text \<open>
  The closure of \<^verbatim>\<open>addUpCredit\<close> and \<^verbatim>\<open>addDownCredit\<close>: read, add, write, in one
  writable transaction. \<^verbatim>\<open>Uint64(old)\<close> panics when the stored field is shorter than
  eight bytes.
\<close>

definition addCreditTx :: "bytes \<Rightarrow> string \<Rightarrow> int64 \<Rightarrow> store \<Rightarrow> (error + store) outcome" where
  "addCreditTx uid key delta tx =
     (case tx_Bucket tx uid of
        None \<Rightarrow> Return (Inl ErrUserNotFound)
      | Some b \<Rightarrow>
          (let old = b_Get tx b key in
           bindO (Uint64 old) (\<lambda>old64.
             let new = old64 + delta in
             Return (b_Put tx b key (i64ToB new)))))"

definition addUpCredit ::
  "Userpanel \<Rightarrow> bytes \<Rightarrow> int64 \<Rightarrow> (error option \<times> Userpanel) outcome" where
  "addUpCredit up uid delta =
     bindO (db_Update (db up) (addCreditTx uid ''UpCredit'' delta)) (\<lambda>(err, d).
       let up = up\<lparr>db := d\<rparr> in
       case err of
         Some e \<Rightarrow> Return (Some e, up)
       | None \<Rightarrow>
           (case getActiveUser up uid of
              None \<Rightarrow> Return (None, up)
            | Some u \<Rightarrow> Return (None, onUser up u (\<lambda>usr. User_addUpCredit usr delta))))"

definition addDownCredit ::
  "Userpanel \<Rightarrow> bytes \<Rightarrow> int64 \<Rightarrow> (error option \<times> Userpanel) outcome" where
  "addDownCredit up uid delta =
     bindO (db_Update (db up) (addCreditTx uid ''DownCredit'' delta)) (\<lambda>(err, d).
       let up = up\<lparr>db := d\<rparr> in
       case err of
         Some e \<Rightarrow> Return (Some e, up)
       | None \<Rightarrow>
           (case getActiveUser up uid of
              None \<Rightarrow> Return (None, up)
            | Some u \<Rightarrow> Return (None, onUser up u (\<lambda>usr. User_addDownCredit usr delta))))"

section \<open>Runs of the panel\<close>

text \<open>
  The calls a session layer, the reconciler's timer and the remote control make on one
  panel, and the panel after a sequence of them. The mutex makes each call's effect on
  the cache one step and bolt's single writer makes each transaction one step, so the
  store after concurrent calls is the store after their transactions in some order. A
  run that panics has no state after it.
\<close>

datatype call =
    CallUpdateCredits "bytes list"
  | CallGetAndActivateAdminUser bytes
  | CallGetAndActivateUser bytes
  | CallDelActiveUser bytes
  | CallGetUserInfo bytes
  | CallAddNewUser UserInfo
  | CallDelUser int64 bytes
  | CallSyncMemFromDB bytes
  | CallSetSessionsCap bytes uint32
  | CallSetUpRate bytes int64
  | CallSetDownRate bytes int64
  | CallSetUpCredit bytes int64
  | CallSetDownCredit bytes int64
  | CallSetExpiryTime bytes int64
  | CallAddUpCredit bytes int64
  | CallAddDownCredit bytes int64

definition stateAfter :: "('a \<times> Userpanel) outcome \<Rightarrow> Userpanel outcome" where
  "stateAfter r = bindO r (\<lambda>(_, up). Return up)"

fun exec :: "call \<Rightarrow> Userpanel \<Rightarrow> Userpanel outcome" where
  "exec (CallUpdateCredits order) up = updateCredits up order"
| "exec (CallGetAndActivateAdminUser uid) up = Return (snd (GetAndActivateAdminUser up uid))"
| "exec (CallGetAndActivateUser uid) up = stateAfter (GetAndActivateUser up uid)"
| "exec (CallDelActiveUser uid) up = Return (delActiveUser up uid)"
| "exec (CallGetUserInfo uid) up = bindO (getUserInfo up uid) (\<lambda>_. Return up)"
| "exec (CallAddNewUser uinfo) up = stateAfter (addNewUser up uinfo)"
| "exec (CallDelUser now uid) up = stateAfter (delUser up now uid)"
| "exec (CallSyncMemFromDB uid) up = stateAfter (syncMemFromDB up uid)"
| "exec (CallSetSessionsCap uid cap) up = stateAfter (setSessionsCap up uid cap)"
| "exec (CallSetUpRate uid rate) up = stateAfter (setUpRate up uid rate)"
| "exec (CallSetDownRate uid rate) up = stateAfter (setDownRate up uid rate)"
| "exec (CallSetUpCredit uid n) up = stateAfter (setUpCredit up uid n)"
| "exec (CallSetDownCredit uid n) up = stateAfter (setDownCredit up uid n)"
| "exec (CallSetExpiryTime uid t) up = stateAfter (setExpiryTime up uid t)"
| "exec (CallAddUpCredit uid delta) up = stateAfter (addUpCredit up uid delta)"
| "exec (CallAddDownCredit uid delta) up = stateAfter (addDownCredit up uid delta)"

fun execs :: "call list \<Rightarrow> Userpanel \<Rightarrow> Userpanel outcome" where
  "execs [] up = Return up"
| "execs (c # cs) up = bindO (exec c up) (execs cs)"



section \<open>Concurrent add-credit calls\<close>

text \<open>
  One call of \<^verbatim>\<open>addUpCredit\<close> or \<^verbatim>\<open>addDownCredit\<close> as the steps other goroutines can
  come between: the \<^verbatim>\<open>db.Update\<close> transaction (bolt holds its writer lock for the
  whole closure), then \<^verbatim>\<open>getActiveUser\<close> (under the read lock), then the add on the
  live user. A call that got an error from the transaction returns it at once.
\<close>

datatype dir = CreditUp | CreditDown

datatype pc = AtUpdate | AtGetActiveUser | AtUserAdd nat | Returned "error option"

datatype thread = Thread dir bytes int64 pc

fun creditKey :: "dir \<Rightarrow> string" where
  "creditKey CreditUp = ''UpCredit''"
| "creditKey CreditDown = ''DownCredit''"

fun userAdd :: "dir \<Rightarrow> User \<Rightarrow> int64 \<Rightarrow> User" where
  "userAdd CreditUp usr delta = User_addUpCredit usr delta"
| "userAdd CreditDown usr delta = User_addDownCredit usr delta"

fun stepAdd :: "Userpanel \<Rightarrow> thread \<Rightarrow> (Userpanel \<times> thread) outcome" where
  "stepAdd up (Thread dr uid delta AtUpdate) =
     bindO (db_Update (db up) (addCreditTx uid (creditKey dr) delta)) (\<lambda>(err, d).
       Return (up\<lparr>db := d\<rparr>,
               Thread dr uid delta
                 (case err of Some e \<Rightarrow> Returned (Some e) | None \<Rightarrow> AtGetActiveUser)))"
| "stepAdd up (Thread dr uid delta AtGetActiveUser) =
     Return (up,
             Thread dr uid delta
               (case getActiveUser up uid of
                  None \<Rightarrow> Returned None
                | Some u \<Rightarrow> AtUserAdd u))"
| "stepAdd up (Thread dr uid delta (AtUserAdd u)) =
     Return (onUser up u (\<lambda>usr. userAdd dr usr delta), Thread dr uid delta (Returned None))"
| "stepAdd up (Thread dr uid delta (Returned err)) =
     Return (up, Thread dr uid delta (Returned err))"


text \<open>One call run alone, from its first step to its return.\<close>

definition runAlone :: "Userpanel \<Rightarrow> thread \<Rightarrow> (Userpanel \<times> thread) outcome" where
  "runAlone up t =
     bindO (stepAdd up t) (\<lambda>(up1, t1).
     bindO (stepAdd up1 t1) (\<lambda>(up2, t2). stepAdd up2 t2))"

fun returned :: "thread \<Rightarrow> bool" where
  "returned (Thread dr uid delta (Returned err)) = True"
| "returned (Thread dr uid delta _) = False"










section \<open>Properties the statements use\<close>

text \<open>
  The cache's pointers are live objects, and the object under key \<open>k\<close> carries \<open>k\<close> as
  its \<open>arrUID\<close>. It holds of the empty cache and every call keeps it.
\<close>

definition cache_ok :: "Userpanel \<Rightarrow> bool" where
  "cache_ok up =
     (\<forall>k u. activeUsers up k = Some u \<longrightarrow> u < length (heap up) \<and> arrUID (heap up ! u) = k)"

text \<open>
  The write-through rule of the admin setters, in the spec's words: without a bucket the
  store's error is returned and nothing changes; with one, the encoded value \<open>enc\<close> is
  stored under \<open>key\<close>, and the change \<open>f\<close> is made to the live user exactly when the UID
  has a cache entry.
\<close>

definition write_through ::
  "Userpanel \<Rightarrow> bytes \<Rightarrow> string \<Rightarrow> bytes \<Rightarrow> (User \<Rightarrow> User) \<Rightarrow>
   (error option \<times> Userpanel) outcome \<Rightarrow> bool" where
  "write_through up uid key enc f res =
     (case db up uid of
        None \<Rightarrow> res = Return (Some ErrUserNotFound, up)
      | Some m \<Rightarrow>
          res = Return (None,
            up\<lparr>db := (db up)(uid \<mapsto> m(key \<mapsto> enc)),
               heap := (case getActiveUser up uid of
                          None \<Rightarrow> heap up
                        | Some u \<Rightarrow> (heap up)[u := f (heap up ! u)])\<rparr>))"

text \<open>The store after one tick, bucket by bucket.\<close>

definition flushed :: "Userpanel \<Rightarrow> bytes \<Rightarrow> bucket option" where
  "flushed up name =
     (case activeUsers up name of
        None \<Rightarrow> db up name
      | Some u \<Rightarrow>
          (case db up name of
             None \<Rightarrow> None
           | Some m \<Rightarrow>
               Some (m(''UpCredit'' \<mapsto> i64ToB (GetRxCredit (heap up ! u)),
                       ''DownCredit'' \<mapsto> i64ToB (GetTxCredit (heap up ! u))))))"

text \<open>
  A bucket in which some field is absent or shorter than its width: four bytes for
  \<^verbatim>\<open>SessionsCap\<close>, eight for the others.
\<close>

definition shortField :: "store \<Rightarrow> bytes \<Rightarrow> bool" where
  "shortField tx b =
     (length (b_Get tx b ''SessionsCap'') < 4 \<or> length (b_Get tx b ''UpRate'') < 8 \<or>
      length (b_Get tx b ''DownRate'') < 8 \<or> length (b_Get tx b ''UpCredit'') < 8 \<or>
      length (b_Get tx b ''DownCredit'') < 8 \<or> length (b_Get tx b ''ExpiryTime'') < 8)"

text \<open>A store in which every bucket has its six fields, each of at least its width.\<close>

definition store_ok :: "store \<Rightarrow> bool" where
  "store_ok d = (\<forall>uid m. d uid = Some m \<longrightarrow> \<not> shortField d uid)"

text \<open>The bucket that holds the six fields of a \<open>UserInfo\<close>, each in its encoding.\<close>

definition bucket_of :: "UserInfo \<Rightarrow> bucket" where
  "bucket_of u =
     [''SessionsCap'' \<mapsto> u32ToB (SessionsCap u), ''UpRate'' \<mapsto> i64ToB (UpRate u),
      ''DownRate'' \<mapsto> i64ToB (DownRate u), ''UpCredit'' \<mapsto> i64ToB (UpCredit u),
      ''DownCredit'' \<mapsto> i64ToB (DownCredit u), ''ExpiryTime'' \<mapsto> i64ToB (ExpiryTime u)]"

text \<open>The backup path \<^verbatim>\<open>delUser\<close> generates.\<close>

definition bakPath_of :: "Userpanel \<Rightarrow> int64 \<Rightarrow> bytes \<Rightarrow> string" where
  "bakPath_of up now uid =
     bakRoot up @ ''/'' @ FormatInt10 now @ ''_pre_del_'' @ EncodeToString uid @ ''.bak''"

subsection \<open>Concrete panels\<close>

definition MaxInt64 :: int64 where
  "MaxInt64 = 9223372036854775807"

definition MinInt64 :: int64 where
  "MinInt64 = - 9223372036854775808"

definition MaxUint32 :: uint32 where
  "MaxUint32 = 4294967295"

definition panel0 :: Userpanel where
  "panel0 =
     \<lparr>db = Map.empty, bakRoot = ''db-backup'', activeUsers = Map.empty, heap = [],
      files = (\<lambda>_. NoFile)\<rparr>"

definition uinfo1 :: UserInfo where
  "uinfo1 =
     \<lparr>UID = replicate 32 1, SessionsCap = 4, UpRate = 1000000, DownRate = 2000000,
      UpCredit = 10000, DownCredit = 20000, ExpiryTime = 4000000000\<rparr>"

definition uinfo_edge :: UserInfo where
  "uinfo_edge =
     \<lparr>UID = replicate 32 2, SessionsCap = MaxUint32, UpRate = - 1, DownRate = MaxInt64,
      UpCredit = MinInt64, DownCredit = 0, ExpiryTime = 1\<rparr>"

definition uinfo2 :: UserInfo where
  "uinfo2 = uinfo1\<lparr>UID := replicate 32 2\<rparr>"

definition uinfo_short :: UserInfo where
  "uinfo_short = uinfo1\<lparr>UID := [1]\<rparr>"

text \<open>The panel after \<open>addNewUser\<close> of \<open>uinfo1\<close>, and after its activation.\<close>

definition panel1 :: Userpanel where
  "panel1 = panel0\<lparr>db := [UID uinfo1 \<mapsto> bucket_of uinfo1]\<rparr>"

definition panel1_active :: Userpanel where
  "panel1_active =
     panel1\<lparr>heap := [MakeUser uinfo1], activeUsers := [replicate 32 1 \<mapsto> 0]\<rparr>"

text \<open>
  Two active users at a tick: the first has used 3000 and 5000 of its credits, the
  second's bucket has been deleted.
\<close>

definition panel_tick :: Userpanel where
  "panel_tick =
     panel1\<lparr>heap := [MakeUser (uinfo1\<lparr>UpCredit := 7000, DownCredit := 15000\<rparr>), MakeUser uinfo2],
            activeUsers := [replicate 32 1 \<mapsto> 0, replicate 32 2 \<mapsto> 1]\<rparr>"


definition panel_short_uid :: Userpanel where
  "panel_short_uid = panel0\<lparr>db := [[1] \<mapsto> bucket_of uinfo_short]\<rparr>"

text \<open>
  The panel after \<open>addNewUser\<close> of \<open>uinfo2\<close>, and the same with a file already at the
  path that \<open>delUser\<close> generates for this UID at Unix time 1700000000.
\<close>

definition panel2 :: Userpanel where
  "panel2 = panel0\<lparr>db := [UID uinfo2 \<mapsto> bucket_of uinfo2]\<rparr>"

definition panel_collision :: Userpanel where
  "panel_collision =
     panel2\<lparr>files := (files panel2)
       (''db-backup/1700000000_pre_del_AgICAgICAgICAgICAgICAgICAgICAgICAgICAgICAgI=.bak'' :=
          File Map.empty)\<rparr>"


text \<open>
  A user whose UID is 32 bytes \<^verbatim>\<open>0xFF\<close>, in a panel whose backup directory has no
  sub-directories: a path with a further \<^verbatim>\<open>/\<close> below \<^verbatim>\<open>db-backup/\<close> names a file in a
  directory that does not exist.
\<close>

definition uinfo_ff :: UserInfo where
  "uinfo_ff = uinfo1\<lparr>UID := replicate 32 255\<rparr>"

definition panel_slash :: Userpanel where
  "panel_slash =
     panel0\<lparr>db := [replicate 32 255 \<mapsto> bucket_of uinfo_ff],
            files := (\<lambda>p. if CHR ''/'' \<in> set (drop 10 p) then NoDir else NoFile)\<rparr>"

text \<open>
  The user created under the one-byte UID, activated under it, after 3000 and 5000 of
  its credits are used.
\<close>

definition panel_short_active :: Userpanel where
  "panel_short_active =
     panel_short_uid\<lparr>heap := [MakeUser (uinfo_short\<lparr>UpCredit := 7000, DownCredit := 15000\<rparr>)],
                     activeUsers := [toArrUID [1] \<mapsto> 0]\<rparr>"




section \<open>The encoding\<close>

lemma bit_be_piece:
  "bit (push_bit k (ucast (ucast (drop_bit k v) :: byte)) :: 'a::len word) n \<longleftrightarrow>
     k \<le> n \<and> n < k + 8 \<and> bit (v :: 'a word) n"
proof (cases "k \<le> n")
  case True
  then obtain m where n: "n = k + m" using le_Suc_ex by blast
  show ?thesis unfolding n
    by (auto simp: bit_simps dest: bit_imp_le_length)
next
  case False
  then show ?thesis by (simp add: bit_simps)
qed

lemma bit_be_piece0:
  "bit (ucast (ucast v :: byte) :: 'a::len word) n \<longleftrightarrow> n < 8 \<and> bit (v :: 'a word) n"
  using bit_be_piece [of 0 v n] by simp

lemma u32ToB_bytes:
  "u32ToB v = [ucast (drop_bit 24 v), ucast (drop_bit 16 v), ucast (drop_bit 8 v), ucast v]"
  by (simp add: u32ToB_def PutUint32_def numeral_eq_Suc)

lemma i64ToB_bytes:
  "i64ToB v = [ucast (drop_bit 56 v), ucast (drop_bit 48 v), ucast (drop_bit 40 v),
               ucast (drop_bit 32 v), ucast (drop_bit 24 v), ucast (drop_bit 16 v),
               ucast (drop_bit 8 v), ucast v]"
  by (simp add: i64ToB_def PutUint64_def numeral_eq_Suc)

lemma length_u32ToB: "length (u32ToB v) = 4"
  by (simp add: u32ToB_bytes)

lemma length_i64ToB: "length (i64ToB v) = 8"
  by (simp add: i64ToB_bytes)

lemma Uint32_u32ToB: "Uint32 (u32ToB v) = Return v"
proof -
  have "(ucast (ucast v :: byte) OR push_bit 8 (ucast (ucast (drop_bit 8 v) :: byte)) OR
        push_bit 16 (ucast (ucast (drop_bit 16 v) :: byte)) OR
        push_bit 24 (ucast (ucast (drop_bit 24 v) :: byte)) :: uint32) = v"
  proof (rule bit_word_eqI)
    fix n assume "n < LENGTH(32)"
    then have "n < 32" by simp
    then show "bit (ucast (ucast v :: byte) OR push_bit 8 (ucast (ucast (drop_bit 8 v) :: byte)) OR
        push_bit 16 (ucast (ucast (drop_bit 16 v) :: byte)) OR
        push_bit 24 (ucast (ucast (drop_bit 24 v) :: byte)) :: uint32) n = bit v n"
      unfolding bit_or_iff bit_be_piece bit_be_piece0 by arith
  qed
  then show ?thesis by (simp add: Uint32_def u32ToB_bytes)
qed

lemma Uint64_i64ToB: "Uint64 (i64ToB v) = Return v"
proof -
  have "(ucast (ucast v :: byte) OR push_bit 8 (ucast (ucast (drop_bit 8 v) :: byte)) OR
        push_bit 16 (ucast (ucast (drop_bit 16 v) :: byte)) OR
        push_bit 24 (ucast (ucast (drop_bit 24 v) :: byte)) OR
        push_bit 32 (ucast (ucast (drop_bit 32 v) :: byte)) OR
        push_bit 40 (ucast (ucast (drop_bit 40 v) :: byte)) OR
        push_bit 48 (ucast (ucast (drop_bit 48 v) :: byte)) OR
        push_bit 56 (ucast (ucast (drop_bit 56 v) :: byte)) :: uint64) = v"
  proof (rule bit_word_eqI)
    fix n assume "n < LENGTH(64)"
    then have "n < 64" by simp
    then show "bit (ucast (ucast v :: byte) OR push_bit 8 (ucast (ucast (drop_bit 8 v) :: byte)) OR
        push_bit 16 (ucast (ucast (drop_bit 16 v) :: byte)) OR
        push_bit 24 (ucast (ucast (drop_bit 24 v) :: byte)) OR
        push_bit 32 (ucast (ucast (drop_bit 32 v) :: byte)) OR
        push_bit 40 (ucast (ucast (drop_bit 40 v) :: byte)) OR
        push_bit 48 (ucast (ucast (drop_bit 48 v) :: byte)) OR
        push_bit 56 (ucast (ucast (drop_bit 56 v) :: byte)) :: uint64) n = bit v n"
      unfolding bit_or_iff bit_be_piece bit_be_piece0 by arith
  qed
  then show ?thesis by (simp add: Uint64_def i64ToB_bytes)
qed

section \<open>The store and the operations in closed form\<close>

lemma b_Put_field:
  "key \<noteq> [] \<Longrightarrow> length key \<le> 32768 \<Longrightarrow> length v \<le> 8 \<Longrightarrow> tx b = Some m \<Longrightarrow>
   b_Put tx b key v = Inr (tx(b \<mapsto> m(key \<mapsto> v)))"
  by (simp add: b_Put_def MaxKeySize_def MaxValueSize_def)

lemma updateDBEntryInt64_eq:
  assumes "key \<noteq> []" "length key \<le> 32768"
  shows "updateDBEntryInt64 up uid key v =
     (case db up uid of
        None \<Rightarrow> Return (Some ErrUserNotFound, up)
      | Some m \<Rightarrow> Return (None, up\<lparr>db := (db up)(uid \<mapsto> m(key \<mapsto> i64ToB v))\<rparr>))"
  using assms
  by (simp add: updateDBEntryInt64_def db_Update_def tx_Bucket_def bindO_def b_Put_field
      length_i64ToB split: option.splits)

lemma updateDBEntryUint32_eq:
  assumes "key \<noteq> []" "length key \<le> 32768"
  shows "updateDBEntryUint32 up uid key v =
     (case db up uid of
        None \<Rightarrow> Return (Some ErrUserNotFound, up)
      | Some m \<Rightarrow> Return (None, up\<lparr>db := (db up)(uid \<mapsto> m(key \<mapsto> u32ToB v))\<rparr>))"
  using assms
  by (simp add: updateDBEntryUint32_def db_Update_def tx_Bucket_def bindO_def b_Put_field
      length_u32ToB split: option.splits)


lemma readFields_bucket_of:
  assumes "tx b = Some (bucket_of u)"
  shows "readFields tx b uid = Return (u\<lparr>UID := uid\<rparr>)"
  using assms
  by (simp add: readFields_def b_Get_def bucket_of_def bindO_def Uint32_u32ToB Uint64_i64ToB)

lemma loadUserInfo_eq:
  "loadUserInfo uid tx =
     (case tx uid of
        None \<Rightarrow> Return (Inl ErrUserNotFound)
      | Some m \<Rightarrow> bindO (readFields tx uid uid) (\<lambda>uinfo. Return (Inr uinfo)))"
  by (simp add: loadUserInfo_def tx_Bucket_def split: option.splits)

lemma addNewUser_eq:
  "addNewUser up u =
     (if UID u = [] then Return (Some ErrBucketNameRequired, up)
      else case db up (UID u) of
             Some m \<Rightarrow> Return (Some ErrBucketExists, up)
           | None \<Rightarrow> Return (None, up\<lparr>db := (db up)(UID u \<mapsto> bucket_of u)\<rparr>))"
  by (simp add: addNewUser_def db_Update_def tx_CreateBucket_def bindO_def thenE_def
      b_Put_field length_i64ToB length_u32ToB bucket_of_def split: option.splits)

lemma getUserInfo_eq:
  "getUserInfo up uid =
     (case db up uid of
        None \<Rightarrow> Return (zeroUserInfo, Some ErrUserNotFound)
      | Some m \<Rightarrow> bindO (readFields (db up) uid uid) (\<lambda>uinfo. Return (uinfo, None)))"
  by (simp add: getUserInfo_def db_View_def loadUserInfo_eq bindO_def
      split: option.splits outcome.splits)

lemma write_through_setSessionsCap:
  "write_through up uid ''SessionsCap'' (u32ToB cap) (\<lambda>usr. User_setSessionsCap usr cap)
     (setSessionsCap up uid cap)"
  by (simp add: write_through_def setSessionsCap_def updateDBEntryUint32_eq bindO_def
      getActiveUser_def onUser_def split: option.splits)

lemma write_through_setUpRate:
  "write_through up uid ''UpRate'' (i64ToB rate) (\<lambda>usr. User_setUpRate usr rate)
     (setUpRate up uid rate)"
  by (simp add: write_through_def setUpRate_def updateDBEntryInt64_eq bindO_def
      getActiveUser_def onUser_def split: option.splits)

lemma write_through_setDownRate:
  "write_through up uid ''DownRate'' (i64ToB rate) (\<lambda>usr. User_setDownRate usr rate)
     (setDownRate up uid rate)"
  by (simp add: write_through_def setDownRate_def updateDBEntryInt64_eq bindO_def
      getActiveUser_def onUser_def split: option.splits)

lemma write_through_setUpCredit:
  "write_through up uid ''UpCredit'' (i64ToB n) (\<lambda>usr. User_setUpCredit usr n)
     (setUpCredit up uid n)"
  by (simp add: write_through_def setUpCredit_def updateDBEntryInt64_eq bindO_def
      getActiveUser_def onUser_def split: option.splits)

lemma write_through_setDownCredit:
  "write_through up uid ''DownCredit'' (i64ToB n) (\<lambda>usr. User_setDownCredit usr n)
     (setDownCredit up uid n)"
  by (simp add: write_through_def setDownCredit_def updateDBEntryInt64_eq bindO_def
      getActiveUser_def onUser_def split: option.splits)

lemma write_through_setExpiryTime:
  "write_through up uid ''ExpiryTime'' (i64ToB t) (\<lambda>usr. User_setExpiryTime usr t)
     (setExpiryTime up uid t)"
  by (simp add: write_through_def setExpiryTime_def updateDBEntryInt64_eq bindO_def
      getActiveUser_def onUser_def split: option.splits)

lemma GetAndActivateUser_eq:
  "GetAndActivateUser up uid =
     (case activeUsers up (toArrUID uid) of
        Some u \<Rightarrow> Return (Inr u, up)
      | None \<Rightarrow>
          (case db up uid of
             None \<Rightarrow> Return (Inl ErrUserNotFound, up)
           | Some m \<Rightarrow>
               bindO (readFields (db up) uid uid) (\<lambda>uinfo.
                 Return (Inr (length (heap up)),
                   up\<lparr>heap := heap up @ [MakeUser uinfo],
                      activeUsers := (activeUsers up)(toArrUID uid \<mapsto> length (heap up))\<rparr>))))"
  by (simp add: GetAndActivateUser_def db_View_def loadUserInfo_eq bindO_def newUser_def
      split: option.splits outcome.splits)

lemma GetAndActivateAdminUser_eq:
  "GetAndActivateAdminUser up uid =
     (case activeUsers up (toArrUID uid) of
        Some u \<Rightarrow> (Inr u, up)
      | None \<Rightarrow>
          (Inr (length (heap up)),
           up\<lparr>heap := heap up @ [MakeUser (adminUserInfo uid)],
              activeUsers := (activeUsers up)(toArrUID uid \<mapsto> length (heap up))\<rparr>))"
  by (simp add: GetAndActivateAdminUser_def newUser_def split: option.splits)

lemma syncMemFromDB_eq:
  "syncMemFromDB up uid =
     (case db up uid of
        None \<Rightarrow> Return (Some ErrUserNotFound, up)
      | Some m \<Rightarrow>
          bindO (readFields (db up) uid uid) (\<lambda>uinfo.
            case activeUsers up (toArrUID uid) of
              None \<Rightarrow> Return (Some ErrUserNotActive, up)
            | Some u \<Rightarrow> Return (None, onUser up u (\<lambda>usr. User_updateInfo usr uinfo))))"
  by (simp add: syncMemFromDB_def db_View_def loadUserInfo_eq bindO_def getActiveUser_def
      split: option.splits outcome.splits)

lemma addCreditTx_eq:
  assumes "key \<noteq> []" "length key \<le> 32768"
  shows "addCreditTx uid key delta tx =
     (case tx uid of
        None \<Rightarrow> Return (Inl ErrUserNotFound)
      | Some m \<Rightarrow>
          bindO (Uint64 (b_Get tx uid key)) (\<lambda>old.
            Return (Inr (tx(uid \<mapsto> m(key \<mapsto> i64ToB (old + delta)))))))"
  using assms
  by (simp add: addCreditTx_def tx_Bucket_def b_Put_field length_i64ToB bindO_def
      split: option.splits outcome.splits)

lemma addUpCredit_eq:
  "addUpCredit up uid delta =
     (case db up uid of
        None \<Rightarrow> Return (Some ErrUserNotFound, up)
      | Some m \<Rightarrow>
          bindO (Uint64 (b_Get (db up) uid ''UpCredit'')) (\<lambda>old.
            Return (None,
              up\<lparr>db := (db up)(uid \<mapsto> m(''UpCredit'' \<mapsto> i64ToB (old + delta))),
                 heap := (case activeUsers up (toArrUID uid) of
                            None \<Rightarrow> heap up
                          | Some u \<Rightarrow>
                              (heap up)[u := User_addUpCredit (heap up ! u) delta])\<rparr>)))"
  by (simp add: addUpCredit_def addCreditTx_eq db_Update_def bindO_def getActiveUser_def
      onUser_def split: option.splits outcome.splits)

lemma addDownCredit_eq:
  "addDownCredit up uid delta =
     (case db up uid of
        None \<Rightarrow> Return (Some ErrUserNotFound, up)
      | Some m \<Rightarrow>
          bindO (Uint64 (b_Get (db up) uid ''DownCredit'')) (\<lambda>old.
            Return (None,
              up\<lparr>db := (db up)(uid \<mapsto> m(''DownCredit'' \<mapsto> i64ToB (old + delta))),
                 heap := (case activeUsers up (toArrUID uid) of
                            None \<Rightarrow> heap up
                          | Some u \<Rightarrow>
                              (heap up)[u := User_addDownCredit (heap up ! u) delta])\<rparr>)))"
  by (simp add: addDownCredit_def addCreditTx_eq db_Update_def bindO_def getActiveUser_def
      onUser_def split: option.splits outcome.splits)

lemma delUser_eq:
  "delUser up now uid =
     (case files up (bakPath_of up now uid) of
        File c \<Rightarrow> Return (Some ErrOverwriteBackup, up)
      | NoFile \<Rightarrow>
          (case db up uid of
             None \<Rightarrow>
               Return (Some ErrBucketNotFound,
                 up\<lparr>files := (files up)(bakPath_of up now uid := File (db up))\<rparr>)
           | Some m \<Rightarrow>
               Return (None,
                 up\<lparr>files := (files up)(bakPath_of up now uid := File (db up)),
                    db := (db up)(uid := None)\<rparr>))
      | NoDir \<Rightarrow> Return (Some ErrCreateFile, up)
      | NoAccess \<Rightarrow> Return (Some ErrInvalidFile, up))"
  by (simp add: delUser_def backupDB_def bakPath_of_def bakFileName_of_def db_Update_def
      tx_DeleteBucket_def bindO_def Let_def split: fentry.splits option.splits)

lemma flushCredits_eq:
  "flushCredits u tx =
     (case tx (arrUID u) of
        None \<Rightarrow> Return (Inl ErrUserNotFound)
      | Some m \<Rightarrow>
          Return (Inr (tx(arrUID u \<mapsto> m(''UpCredit'' \<mapsto> i64ToB (GetRxCredit u),
                                         ''DownCredit'' \<mapsto> i64ToB (GetTxCredit u))))))"
  by (simp add: flushCredits_def tx_Bucket_def thenE_def b_Put_field length_i64ToB
      split: option.splits)

text \<open>One step of the reconciler's loop on the store.\<close>

lemma flush_step:
  "db_Update d (flushCredits u) =
     Return (case d (arrUID u) of None \<Rightarrow> Some ErrUserNotFound | Some m \<Rightarrow> None,
             case d (arrUID u) of
               None \<Rightarrow> d
             | Some m \<Rightarrow> d(arrUID u \<mapsto> m(''UpCredit'' \<mapsto> i64ToB (GetRxCredit u),
                                          ''DownCredit'' \<mapsto> i64ToB (GetTxCredit u))))"
  by (simp add: db_Update_def flushCredits_eq split: option.splits)

lemma flush_step_dom:
  "\<exists>e d1. db_Update d (flushCredits u) = Return (e, d1) \<and> dom d1 = dom d"
  by (cases "d (arrUID u)") (auto simp: flush_step)

lemma updateCredits_frame:
  "\<exists>d. updateCredits up order = Return (up\<lparr>db := d\<rparr>) \<and> dom d = dom (db up)"
proof (induction order arbitrary: up)
  case Nil
  have "up = up\<lparr>db := db up\<rparr>" by simp
  then show ?case by (metis updateCredits.simps(1))
next
  case (Cons k order)
  show ?case
  proof (cases "activeUsers up k")
    case None
    then show ?thesis using Cons.IH [of up] by simp
  next
    case (Some u)
    obtain e d1 where step: "db_Update (db up) (flushCredits (heap up ! u)) = Return (e, d1)"
      and dom1: "dom d1 = dom (db up)"
      using flush_step_dom by blast
    from Cons.IH [of "up\<lparr>db := d1\<rparr>"] obtain d where
      "updateCredits (up\<lparr>db := d1\<rparr>) order = Return (up\<lparr>db := d\<rparr>)" "dom d = dom d1"
      by auto
    with Some step dom1 show ?thesis by (auto simp: bindO_def)
  qed
qed

lemma updateCredits_eq:
  assumes "cache_ok up"
  shows "updateCredits up order =
           Return (up\<lparr>db := (\<lambda>name. if name \<in> set order then flushed up name
                                       else db up name)\<rparr>)"
  using assms
proof (induction order arbitrary: up)
  case Nil
  have "up = up\<lparr>db := db up\<rparr>" by simp
  then show ?case by simp
next
  case (Cons k order)
  show ?case
  proof (cases "activeUsers up k")
    case None
    then have fl: "flushed up k = db up k" by (simp add: flushed_def)
    have "(\<lambda>name. if name \<in> set order then flushed up name else db up name) =
          (\<lambda>name. if name \<in> set (k # order) then flushed up name else db up name)"
      using fl by auto
    with None Cons.IH [OF Cons.prems] show ?thesis by simp
  next
    case (Some u)
    with Cons.prems have arr: "arrUID (heap up ! u) = k" by (simp add: cache_ok_def)
    define d1 where "d1 = (db up)(k := flushed up k)"
    have step: "db_Update (db up) (flushCredits (heap up ! u)) =
                  Return (case db up k of None \<Rightarrow> Some ErrUserNotFound | Some m \<Rightarrow> None, d1)"
      unfolding flush_step arr d1_def using Some
      by (auto simp: flushed_def split: option.splits)
    have ok1: "cache_ok (up\<lparr>db := d1\<rparr>)" using Cons.prems by (simp add: cache_ok_def)
    have fl1: "flushed (up\<lparr>db := d1\<rparr>) name = flushed up name" for name
      using Some by (auto simp: flushed_def d1_def split: option.splits)
    have "(\<lambda>name. if name \<in> set order then flushed (up\<lparr>db := d1\<rparr>) name
                   else db (up\<lparr>db := d1\<rparr>) name) =
          (\<lambda>name. if name \<in> set (k # order) then flushed up name else db up name)"
      unfolding fl1 by (rule ext) (simp add: d1_def)
    with Cons.IH [OF ok1] Some step show ?thesis by (simp add: bindO_def)
  qed
qed

section \<open>What a call does to the cache\<close>

lemma readFields_UID: "readFields tx b uid = Return uinfo \<Longrightarrow> UID uinfo = uid"
  by (auto simp: readFields_def bindO_def split: outcome.splits)

lemma map_arrUID_update:
  assumes "arrUID x = arrUID (h ! u)"
  shows "map arrUID (h[u := x]) = map arrUID h"
proof (rule nth_equalityI)
  show "length (map arrUID (h[u := x])) = length (map arrUID h)" by simp
next
  fix i assume "i < length (map arrUID (h[u := x]))"
  then show "map arrUID (h[u := x]) ! i = map arrUID h ! i"
    using assms by (cases "i = u") simp_all
qed

lemma arrUID_User_methods:
  "arrUID (User_setSessionsCap usr cap) = arrUID usr"
  "arrUID (User_setUpRate usr n) = arrUID usr"
  "arrUID (User_setDownRate usr n) = arrUID usr"
  "arrUID (User_setUpCredit usr n) = arrUID usr"
  "arrUID (User_setDownCredit usr n) = arrUID usr"
  "arrUID (User_setExpiryTime usr n) = arrUID usr"
  "arrUID (User_addUpCredit usr n) = arrUID usr"
  "arrUID (User_addDownCredit usr n) = arrUID usr"
  "arrUID (User_updateInfo usr uinfo) = arrUID usr"
  by (simp_all add: User_setSessionsCap_def User_setUpRate_def User_setDownRate_def
      User_setUpCredit_def User_setDownCredit_def User_setExpiryTime_def User_addUpCredit_def
      User_addDownCredit_def User_updateInfo_def)

lemma write_through_cache:
  assumes "write_through up uid key enc f res" and "\<And>x. arrUID (f x) = arrUID x"
    and "stateAfter res = Return up'"
  shows "map arrUID (heap up') = map arrUID (heap up) \<and> activeUsers up' = activeUsers up"
  using assms
  by (auto simp: write_through_def stateAfter_def bindO_def map_arrUID_update
      split: option.splits)

lemma addUpCredit_cache:
  assumes "stateAfter (addUpCredit up uid delta) = Return up'"
  shows "map arrUID (heap up') = map arrUID (heap up) \<and> activeUsers up' = activeUsers up"
  using assms
  by (auto simp: addUpCredit_eq stateAfter_def bindO_def map_arrUID_update
      arrUID_User_methods split: option.splits outcome.splits)

lemma addDownCredit_cache:
  assumes "stateAfter (addDownCredit up uid delta) = Return up'"
  shows "map arrUID (heap up') = map arrUID (heap up) \<and> activeUsers up' = activeUsers up"
  using assms
  by (auto simp: addDownCredit_eq stateAfter_def bindO_def map_arrUID_update
      arrUID_User_methods split: option.splits outcome.splits)

lemma syncMemFromDB_cache:
  assumes "stateAfter (syncMemFromDB up uid) = Return up'"
  shows "map arrUID (heap up') = map arrUID (heap up) \<and> activeUsers up' = activeUsers up"
  using assms
  by (auto simp: syncMemFromDB_eq stateAfter_def bindO_def onUser_def map_arrUID_update
      arrUID_User_methods split: option.splits outcome.splits)

lemma delUser_cache:
  assumes "stateAfter (delUser up now uid) = Return up'"
  shows "heap up' = heap up \<and> activeUsers up' = activeUsers up"
  using assms
  by (auto simp: delUser_eq stateAfter_def bindO_def split: option.splits fentry.splits)

lemma addNewUser_cache:
  assumes "stateAfter (addNewUser up uinfo) = Return up'"
  shows "heap up' = heap up \<and> activeUsers up' = activeUsers up"
  using assms
  by (auto simp: addNewUser_eq stateAfter_def bindO_def split: option.splits if_splits)

lemma updateCredits_cache:
  assumes "updateCredits up order = Return up'"
  shows "heap up' = heap up \<and> activeUsers up' = activeUsers up"
  using assms updateCredits_frame [of up order] by auto

lemma GetAndActivateUser_cache:
  assumes "stateAfter (GetAndActivateUser up uid) = Return up'"
  shows "up' = up \<or>
         (\<exists>uinfo. activeUsers up (toArrUID uid) = None \<and> UID uinfo = uid \<and>
                   heap up' = heap up @ [MakeUser uinfo] \<and>
                   activeUsers up' = (activeUsers up)(toArrUID uid \<mapsto> length (heap up)))"
  using assms
  by (auto simp: GetAndActivateUser_eq stateAfter_def bindO_def dest: readFields_UID
      split: option.splits outcome.splits)

lemma GetAndActivateAdminUser_cache:
  "snd (GetAndActivateAdminUser up uid) = up \<or>
     (activeUsers up (toArrUID uid) = None \<and>
      heap (snd (GetAndActivateAdminUser up uid)) = heap up @ [MakeUser (adminUserInfo uid)] \<and>
      activeUsers (snd (GetAndActivateAdminUser up uid)) =
        (activeUsers up)(toArrUID uid \<mapsto> length (heap up)))"
  by (simp add: GetAndActivateAdminUser_eq split: option.splits)

text \<open>
  Every call either leaves the cache's map and the identities of the live users alone, or
  is \<open>delActiveUser\<close>, or is an activation that allocates one user for a key that had
  none.
\<close>

lemma exec_cache:
  assumes "exec c up = Return up'"
  shows "(map arrUID (heap up') = map arrUID (heap up) \<and> activeUsers up' = activeUsers up) \<or>
         (\<exists>uid. c = CallDelActiveUser uid \<and> heap up' = heap up \<and>
                activeUsers up' = (activeUsers up)(toArrUID uid := None)) \<or>
         (\<exists>uinfo. activeUsers up (toArrUID (UID uinfo)) = None \<and>
                  heap up' = heap up @ [MakeUser uinfo] \<and>
                  activeUsers up' =
                    (activeUsers up)(toArrUID (UID uinfo) \<mapsto> length (heap up)))"
proof (cases c)
  case (CallUpdateCredits order)
  with assms updateCredits_cache [of up order up'] show ?thesis by simp
next
  case (CallGetAndActivateAdminUser uid)
  have uid: "UID (adminUserInfo uid) = uid" by (simp add: adminUserInfo_def)
  from assms CallGetAndActivateAdminUser
  have up': "up' = snd (GetAndActivateAdminUser up uid)" by simp
  from GetAndActivateAdminUser_cache [of up uid] show ?thesis
  proof
    assume "snd (GetAndActivateAdminUser up uid) = up"
    with up' show ?thesis by simp
  next
    assume "activeUsers up (toArrUID uid) = None \<and>
      heap (snd (GetAndActivateAdminUser up uid)) = heap up @ [MakeUser (adminUserInfo uid)] \<and>
      activeUsers (snd (GetAndActivateAdminUser up uid)) =
        (activeUsers up)(toArrUID uid \<mapsto> length (heap up))"
    with up' uid have "activeUsers up (toArrUID (UID (adminUserInfo uid))) = None \<and>
      heap up' = heap up @ [MakeUser (adminUserInfo uid)] \<and>
      activeUsers up' =
        (activeUsers up)(toArrUID (UID (adminUserInfo uid)) \<mapsto> length (heap up))"
      by simp
    then show ?thesis by blast
  qed
next
  case (CallGetAndActivateUser uid)
  with assms GetAndActivateUser_cache [of up uid up'] show ?thesis by auto
next
  case (CallDelActiveUser uid)
  with assms show ?thesis by (auto simp: delActiveUser_def)
next
  case (CallGetUserInfo uid)
  with assms show ?thesis by (auto simp: bindO_def split: outcome.splits)
next
  case (CallAddNewUser uinfo)
  with assms addNewUser_cache [of up uinfo up'] show ?thesis by simp
next
  case (CallDelUser now uid)
  with assms delUser_cache [of up now uid up'] show ?thesis by simp
next
  case (CallSyncMemFromDB uid)
  with assms syncMemFromDB_cache [of up uid up'] show ?thesis by simp
next
  case (CallSetSessionsCap uid cap)
  with assms write_through_cache [OF write_through_setSessionsCap [of up uid cap]]
  show ?thesis by (simp add: arrUID_User_methods)
next
  case (CallSetUpRate uid n)
  with assms write_through_cache [OF write_through_setUpRate [of up uid n]]
  show ?thesis by (simp add: arrUID_User_methods)
next
  case (CallSetDownRate uid n)
  with assms write_through_cache [OF write_through_setDownRate [of up uid n]]
  show ?thesis by (simp add: arrUID_User_methods)
next
  case (CallSetUpCredit uid n)
  with assms write_through_cache [OF write_through_setUpCredit [of up uid n]]
  show ?thesis by (simp add: arrUID_User_methods)
next
  case (CallSetDownCredit uid n)
  with assms write_through_cache [OF write_through_setDownCredit [of up uid n]]
  show ?thesis by (simp add: arrUID_User_methods)
next
  case (CallSetExpiryTime uid n)
  with assms write_through_cache [OF write_through_setExpiryTime [of up uid n]]
  show ?thesis by (simp add: arrUID_User_methods)
next
  case (CallAddUpCredit uid delta)
  with assms addUpCredit_cache [of up uid delta up'] show ?thesis by simp
next
  case (CallAddDownCredit uid delta)
  with assms addDownCredit_cache [of up uid delta up'] show ?thesis by simp
qed



lemma cache_ok_map:
  assumes "cache_ok up" and "map arrUID (heap up') = map arrUID (heap up)"
    and "activeUsers up' = activeUsers up"
  shows "cache_ok up'"
proof -
  have len: "length (heap up') = length (heap up)"
    using assms(2) by (metis length_map)
  have "arrUID (heap up' ! u) = arrUID (heap up ! u)" if "u < length (heap up)" for u
    using that assms(2) len by (metis nth_map)
  with assms(1,3) len show ?thesis by (auto simp: cache_ok_def)
qed

lemma exec_cache_ok:
  assumes "exec c up = Return up'" and "cache_ok up"
  shows "cache_ok up'"
  using exec_cache [OF assms(1)]
proof (elim disjE exE conjE)
  assume "map arrUID (heap up') = map arrUID (heap up)" "activeUsers up' = activeUsers up"
  with assms(2) show ?thesis by (rule cache_ok_map)
next
  fix uid
  assume "heap up' = heap up" "activeUsers up' = (activeUsers up)(toArrUID uid := None)"
  with assms(2) show ?thesis by (auto simp: cache_ok_def)
next
  fix uinfo
  assume "heap up' = heap up @ [MakeUser uinfo]"
    "activeUsers up' = (activeUsers up)(toArrUID (UID uinfo) \<mapsto> length (heap up))"
  with assms(2) show ?thesis
    by (auto simp: cache_ok_def nth_append MakeUser_def less_Suc_eq)
qed

lemma execs_cache_ok:
  assumes "execs cs up = Return up'" and "cache_ok up"
  shows "cache_ok up'"
  using assms
proof (induction cs arbitrary: up)
  case Nil
  then show ?case by simp
next
  case (Cons c cs)
  from Cons.prems(1) obtain up1 where c: "exec c up = Return up1"
    and cs: "execs cs up1 = Return up'"
    by (auto simp: bindO_def split: outcome.splits)
  from Cons.IH [OF cs exec_cache_ok [OF c Cons.prems(2)]] show ?case .
qed

lemma cache_ok_panel0: "cache_ok panel0"
  by (simp add: cache_ok_def panel0_def)

section \<open>Decoding, activation and credit deltas\<close>
















lemma flushed_all:
  assumes "set order = dom (activeUsers up)"
  shows "(\<lambda>name. if name \<in> set order then flushed up name else db up name) = flushed up"
proof (rule ext)
  fix name
  show "(if name \<in> set order then flushed up name else db up name) = flushed up name"
    using assms by (cases "activeUsers up name") (auto simp: flushed_def)
qed

section \<open>What a setter leaves in the store and in the live user\<close>



















section \<open>Interleaved add-credit calls\<close>







lemma runAlone_returned:
  assumes "runAlone up (Thread dr uid delta AtUpdate) = Return (up', t)"
  shows "returned t"
  using assms
  by (auto simp: runAlone_def bindO_def split: outcome.splits option.splits prod.splits)










section \<open>Ticks with and without the admin user\<close>







section \<open>The claims\<close>






text \<open>
  C3. For every \<open>UserInfo\<close> \<open>u\<close> (every \<^verbatim>\<open>uint32\<close> \<open>SessionsCap\<close> up to \<open>MaxUint32\<close> and
  every \<^verbatim>\<open>int64\<close> in the other fields, so in particular 0, 1, -1, \<open>MaxInt64\<close> and
  \<open>MinInt64\<close>) whose UID is not empty and has no bucket yet: \<open>addNewUser\<close> succeeds and
  stores the bucket of the six encoded fields, and \<open>getUserInfo\<close> on \<open>UID u\<close> then
  returns \<open>u\<close> itself with a \<^verbatim>\<open>nil\<close> error. The \<^verbatim>\<open>uint32\<close> is stored as 4 bytes and
  each \<^verbatim>\<open>int64\<close> as 8 bytes, most significant byte first, and \<open>Uint32\<close> and \<open>Uint64\<close>
  invert the two encodings.
\<close>

theorem addNewUser_getUserInfo_roundtrip:
  assumes "UID u \<noteq> []" and "db up (UID u) = None"
  shows "addNewUser up u = Return (None, up\<lparr>db := (db up)(UID u \<mapsto> bucket_of u)\<rparr>) \<and>
         getUserInfo (up\<lparr>db := (db up)(UID u \<mapsto> bucket_of u)\<rparr>) (UID u) = Return (u, None) \<and>
         bucket_of u ''SessionsCap'' = Some (u32ToB (SessionsCap u)) \<and>
         bucket_of u ''UpRate'' = Some (i64ToB (UpRate u)) \<and>
         bucket_of u ''DownRate'' = Some (i64ToB (DownRate u)) \<and>
         bucket_of u ''UpCredit'' = Some (i64ToB (UpCredit u)) \<and>
         bucket_of u ''DownCredit'' = Some (i64ToB (DownCredit u)) \<and>
         bucket_of u ''ExpiryTime'' = Some (i64ToB (ExpiryTime u)) \<and>
         (\<forall>v. u32ToB v =
                [ucast (drop_bit 24 v), ucast (drop_bit 16 v), ucast (drop_bit 8 v), ucast v] \<and>
              Uint32 (u32ToB v) = Return v) \<and>
         (\<forall>v. i64ToB v =
                [ucast (drop_bit 56 v), ucast (drop_bit 48 v), ucast (drop_bit 40 v),
                 ucast (drop_bit 32 v), ucast (drop_bit 24 v), ucast (drop_bit 16 v),
                 ucast (drop_bit 8 v), ucast v] \<and>
              Uint64 (i64ToB v) = Return v)"
proof -
  let ?up' = "up\<lparr>db := (db up)(UID u \<mapsto> bucket_of u)\<rparr>"
  have add: "addNewUser up u = Return (None, ?up')"
    using assms by (simp add: addNewUser_eq)
  have "readFields (db ?up') (UID u) (UID u) = Return (u\<lparr>UID := UID u\<rparr>)"
    by (rule readFields_bucket_of) simp
  then have get: "getUserInfo ?up' (UID u) = Return (u, None)"
    by (simp add: getUserInfo_eq bindO_def)
  have fields: "bucket_of u ''SessionsCap'' = Some (u32ToB (SessionsCap u))"
    "bucket_of u ''UpRate'' = Some (i64ToB (UpRate u))"
    "bucket_of u ''DownRate'' = Some (i64ToB (DownRate u))"
    "bucket_of u ''UpCredit'' = Some (i64ToB (UpCredit u))"
    "bucket_of u ''DownCredit'' = Some (i64ToB (DownCredit u))"
    "bucket_of u ''ExpiryTime'' = Some (i64ToB (ExpiryTime u))"
    by (simp_all add: bucket_of_def)
  from add get fields show ?thesis
    using u32ToB_bytes Uint32_u32ToB i64ToB_bytes Uint64_i64ToB by blast
qed

theorem addNewUser_getUserInfo_roundtrip_witness:
  "UID uinfo_edge \<noteq> [] \<and> db panel0 (UID uinfo_edge) = None \<and>
   addNewUser panel0 uinfo_edge =
     Return (None, panel0\<lparr>db := (db panel0)(UID uinfo_edge \<mapsto> bucket_of uinfo_edge)\<rparr>) \<and>
   getUserInfo (panel0\<lparr>db := (db panel0)(UID uinfo_edge \<mapsto> bucket_of uinfo_edge)\<rparr>)
     (replicate 32 2) = Return (uinfo_edge, None) \<and>
   bucket_of uinfo_edge ''UpCredit'' = Some [128, 0, 0, 0, 0, 0, 0, 0] \<and>
   bucket_of uinfo_edge ''DownRate'' = Some [127, 255, 255, 255, 255, 255, 255, 255] \<and>
   bucket_of uinfo_edge ''UpRate'' = Some [255, 255, 255, 255, 255, 255, 255, 255] \<and>
   bucket_of uinfo_edge ''SessionsCap'' = Some [255, 255, 255, 255]"
proof -
  have h1: "UID uinfo_edge \<noteq> []" by (simp add: uinfo_edge_def)
  have h2: "db panel0 (UID uinfo_edge) = None" by (simp add: panel0_def)
  have u: "UID uinfo_edge = replicate 32 2" by (simp add: uinfo_edge_def)
  have m1: "(- 1 :: int64) = 18446744073709551615" by simp
  have b: "i64ToB MinInt64 = [128, 0, 0, 0, 0, 0, 0, 0]"
    "i64ToB MaxInt64 = [127, 255, 255, 255, 255, 255, 255, 255]"
    "i64ToB (- 1) = [255, 255, 255, 255, 255, 255, 255, 255]"
    "u32ToB MaxUint32 = [255, 255, 255, 255]"
    unfolding m1
    by (simp_all add: i64ToB_bytes u32ToB_bytes MinInt64_def MaxInt64_def MaxUint32_def)
  have f: "UpCredit uinfo_edge = MinInt64" "DownRate uinfo_edge = MaxInt64"
    "UpRate uinfo_edge = - 1" "SessionsCap uinfo_edge = MaxUint32"
    by (simp_all add: uinfo_edge_def)
  from addNewUser_getUserInfo_roundtrip [OF h1 h2] h1 h2 show ?thesis
    by (simp add: b f flip: u)
qed




text \<open>
  C5 does not hold of the code for every UID. The file name has the UID in
  \<^verbatim>\<open>base64.StdEncoding\<close>, whose alphabet contains \<^verbatim>\<open>/\<close>. For the UID of 32 bytes
  \<^verbatim>\<open>0xFF\<close> the name is \<open>1700000000_pre_del_\<close>, 42 times \<^verbatim>\<open>/\<close>, \<open>8=.bak\<close>: below the
  backup directory it names the file \<open>8=.bak\<close> in a directory \<open>1700000000_pre_del_\<close>
  that nobody has made. \<^verbatim>\<open>os.Stat\<close> reports that the path does not exist, \<^verbatim>\<open>os.Create\<close>
  fails, and \<open>delUser\<close> returns that error: no backup is written, and the bucket, which
  exists, is not deleted. In the same panel, at the same time, the UID of 32 bytes
  \<^verbatim>\<open>0x02\<close>, whose name has no \<^verbatim>\<open>/\<close>, is backed up: nothing is wrong with the
  directory.
\<close>

theorem delUser_slash_in_name:
  "EncodeToString (replicate 32 255) = ''//////////////////////////////////////////8='' \<and>
   bakPath_of panel_slash 1700000000 (replicate 32 255) =
     ''db-backup/1700000000_pre_del_//////////////////////////////////////////8=.bak'' \<and>
   files panel_slash (bakPath_of panel_slash 1700000000 (replicate 32 255)) = NoDir \<and>
   db panel_slash (replicate 32 255) = Some (bucket_of uinfo_ff) \<and>
   delUser panel_slash 1700000000 (replicate 32 255) =
     Return (Some ErrCreateFile, panel_slash) \<and>
   bakPath_of panel_slash 1700000000 (replicate 32 2) =
     ''db-backup/1700000000_pre_del_AgICAgICAgICAgICAgICAgICAgICAgICAgICAgICAgI=.bak'' \<and>
   files panel_slash (bakPath_of panel_slash 1700000000 (replicate 32 2)) = NoFile \<and>
   delUser panel_slash 1700000000 (replicate 32 2) =
     Return (Some ErrBucketNotFound,
       panel_slash\<lparr>files := (files panel_slash)
         (bakPath_of panel_slash 1700000000 (replicate 32 2) := File (db panel_slash))\<rparr>)"
proof -
  let ?uid = "replicate 32 (255 :: byte)"
  let ?uid2 = "replicate 32 (2 :: byte)"
  let ?p = "''db-backup/1700000000_pre_del_//////////////////////////////////////////8=.bak''"
  let ?p2 = "''db-backup/1700000000_pre_del_AgICAgICAgICAgICAgICAgICAgICAgICAgICAgICAgI=.bak''"
  have t: "FormatInt10 1700000000 = ''1700000000''"
    by (simp add: FormatInt10_def formatNat.simps digit_char_def)
  have e3: "EncodeToString (255 # 255 # 255 # src) = ''////'' @ EncodeToString src" for src
    by (simp add: b64_def encodeStd_def)
  have e2: "EncodeToString [255, 255] = ''//8=''"
    by (simp add: b64_def encodeStd_def)
  have e: "EncodeToString ?uid = ''//////////////////////////////////////////8=''"
    by (simp add: numeral_eq_Suc e3 e2 del: EncodeToString.simps)
  have f3: "EncodeToString (2 # 2 # 2 # src) = ''AgIC'' @ EncodeToString src" for src
    by (simp add: b64_def encodeStd_def)
  have f2: "EncodeToString [2, 2] = ''AgI=''"
    by (simp add: b64_def encodeStd_def)
  have f: "EncodeToString ?uid2 = ''AgICAgICAgICAgICAgICAgICAgICAgICAgICAgICAgI=''"
    by (simp add: numeral_eq_Suc f3 f2 del: EncodeToString.simps)
  have root: "bakRoot panel_slash = ''db-backup''"
    by (simp add: panel_slash_def panel0_def)
  have p: "bakPath_of panel_slash 1700000000 ?uid = ?p"
    by (simp add: bakPath_of_def t e root)
  have p2: "bakPath_of panel_slash 1700000000 ?uid2 = ?p2"
    by (simp add: bakPath_of_def t f root)
  have fl: "files panel_slash ?p = NoDir" "files panel_slash ?p2 = NoFile"
    by (simp_all add: panel_slash_def)
  have d: "db panel_slash ?uid = Some (bucket_of uinfo_ff)" "db panel_slash ?uid2 = None"
    by (simp_all add: panel_slash_def panel0_def)
  have c: "delUser panel_slash 1700000000 ?uid = Return (Some ErrCreateFile, panel_slash)"
    by (simp add: delUser_eq p fl)
  have c2: "delUser panel_slash 1700000000 ?uid2 =
     Return (Some ErrBucketNotFound,
       panel_slash\<lparr>files := (files panel_slash)
         (bakPath_of panel_slash 1700000000 ?uid2 := File (db panel_slash))\<rparr>)"
    by (simp add: delUser_eq p2 fl d)
  have fp: "files panel_slash (bakPath_of panel_slash 1700000000 ?uid) = NoDir"
    "files panel_slash (bakPath_of panel_slash 1700000000 ?uid2) = NoFile"
    by (simp_all only: p p2 fl)
  show ?thesis
    using e p fp(1) d(1) c p2 fp(2) c2 by (intro conjI) assumption+
qed

text \<open>
  C6 does not hold of the code for every active user. \<open>updateCredits\<close> names the bucket
  by the user's 32-byte key \<^verbatim>\<open>u.arrUID\<close>, while \<open>addNewUser\<close>, the read paths and the
  setters name it by the UID as passed. A user created under the one-byte UID \<open>[1]\<close> has
  its bucket under \<open>[1]\<close> and, once activated under that UID, its cache entry under
  \<open>[1]\<close> padded with 31 zero bytes. The tick looks for a bucket of the padded name, finds
  none, drops the \<open>ErrUserNotFound\<close>, and leaves the panel as it was: the user has 7000
  and 15000 credits left, and its bucket still says 10000 and 20000.
\<close>

theorem updateCredits_misses_short_uid:
  "addNewUser panel0 uinfo_short = Return (None, panel_short_uid) \<and>
   GetAndActivateUser panel_short_uid [1] =
     Return (Inr 0,
       panel_short_uid\<lparr>heap := [MakeUser uinfo_short], activeUsers := [toArrUID [1] \<mapsto> 0]\<rparr>) \<and>
   toArrUID [1] = 1 # replicate 31 0 \<and>
   activeUsers panel_short_active (toArrUID [1]) = Some 0 \<and>
   arrUID (heap panel_short_active ! 0) = toArrUID [1] \<and>
   GetRxCredit (heap panel_short_active ! 0) = 7000 \<and>
   GetTxCredit (heap panel_short_active ! 0) = 15000 \<and>
   db panel_short_active (toArrUID [1]) = None \<and>
   db panel_short_active [1] = Some (bucket_of uinfo_short) \<and>
   updateCredits panel_short_active [toArrUID [1]] = Return panel_short_active \<and>
   Uint64 (b_Get (db panel_short_active) [1] ''UpCredit'') = Return 10000 \<and>
   Uint64 (b_Get (db panel_short_active) [1] ''DownCredit'') = Return 20000 \<and>
   getUserInfo panel_short_active [1] = Return (uinfo_short, None)"
proof -
  have k: "toArrUID [1] = 1 # replicate 31 0"
    by (simp add: toArrUID_def)
  have kn: "toArrUID [1] \<noteq> [1]"
    by (simp add: k)
  have u: "UID uinfo_short = [1]" by (simp add: uinfo_short_def)
  have d0: "db panel0 [1] = None" "db panel0 = Map.empty" by (simp_all add: panel0_def)
  have c1: "addNewUser panel0 uinfo_short = Return (None, panel_short_uid)"
    by (simp add: addNewUser_eq u d0 panel_short_uid_def)
  have d: "db panel_short_uid [1] = Some (bucket_of uinfo_short)"
    "db panel_short_active [1] = Some (bucket_of uinfo_short)"
    by (simp_all add: panel_short_active_def panel_short_uid_def)
  have dn: "db panel_short_active (toArrUID [1]) = None"
    using kn by (simp add: panel_short_active_def panel_short_uid_def panel0_def)
  have r: "readFields (db panel_short_uid) [1] [1] = Return uinfo_short"
    using readFields_bucket_of [of "db panel_short_uid" "[1]" uinfo_short "[1]"] d(1)
    by (simp add: uinfo_short_def)
  have r2: "readFields (db panel_short_active) [1] [1] = Return uinfo_short"
    using readFields_bucket_of [of "db panel_short_active" "[1]" uinfo_short "[1]"] d(2)
    by (simp add: uinfo_short_def)
  have a0: "activeUsers panel_short_uid (toArrUID [1]) = None"
    by (simp add: panel_short_uid_def panel0_def)
  have c2: "GetAndActivateUser panel_short_uid [1] =
     Return (Inr 0,
       panel_short_uid\<lparr>heap := [MakeUser uinfo_short], activeUsers := [toArrUID [1] \<mapsto> 0]\<rparr>)"
  proof -
    have hp: "heap panel_short_uid = []" "activeUsers panel_short_uid = Map.empty"
      by (simp_all add: panel_short_uid_def panel0_def)
    have "GetAndActivateUser panel_short_uid [1] =
       Return (Inr (length (heap panel_short_uid)),
         panel_short_uid\<lparr>heap := heap panel_short_uid @ [MakeUser uinfo_short],
           activeUsers := (activeUsers panel_short_uid)
             (toArrUID [1] \<mapsto> length (heap panel_short_uid))\<rparr>)"
      by (simp add: GetAndActivateUser_eq a0 d r bindO_def)
    then show ?thesis by (simp add: hp)
  qed
  have a: "activeUsers panel_short_active (toArrUID [1]) = Some 0"
    by (simp add: panel_short_active_def)
  have h: "heap panel_short_active ! 0 =
             MakeUser (uinfo_short\<lparr>UpCredit := 7000, DownCredit := 15000\<rparr>)"
    by (simp add: panel_short_active_def)
  have ar: "arrUID (heap panel_short_active ! 0) = toArrUID [1]"
    by (simp add: h MakeUser_def u)
  have g: "GetRxCredit (heap panel_short_active ! 0) = 7000"
    "GetTxCredit (heap panel_short_active ! 0) = 15000"
    by (simp_all add: h GetRxCredit_def GetTxCredit_def MakeUser_def)
  have c3: "updateCredits panel_short_active [toArrUID [1]] = Return panel_short_active"
    by (simp add: a flush_step ar dn bindO_def)
  have v: "Uint64 (b_Get (db panel_short_active) [1] ''UpCredit'') = Return 10000"
    "Uint64 (b_Get (db panel_short_active) [1] ''DownCredit'') = Return 20000"
    by (simp_all add: b_Get_def d bucket_of_def Uint64_i64ToB uinfo_short_def uinfo1_def)
  have c4: "getUserInfo panel_short_active [1] = Return (uinfo_short, None)"
    by (simp add: getUserInfo_eq d r2 bindO_def)
  show ?thesis
    using c1 c2 k a ar g dn d(2) c3 v c4 by (intro conjI) assumption+
qed







text \<open>
  C9, as the claim states it, fails for the store: a user created under the one-byte
  UID \<open>[1]\<close> is found by \<open>getUserInfo\<close> under \<open>[1]\<close> and not under its zero-padded
  32-byte form, which names another bucket.
\<close>

theorem short_uid_store_counterexample:
  "toArrUID [1] = 1 # replicate 31 0 \<and>
   addNewUser panel0 uinfo_short = Return (None, panel_short_uid) \<and>
   getUserInfo panel_short_uid [1] = Return (uinfo_short, None) \<and>
   getUserInfo panel_short_uid (toArrUID [1]) = Return (zeroUserInfo, Some ErrUserNotFound)"
proof -
  have k: "toArrUID [1] = 1 # replicate 31 0" by (simp add: toArrUID_def)
  have u: "UID uinfo_short = [1]" by (simp add: uinfo_short_def)
  have add: "addNewUser panel0 uinfo_short = Return (None, panel_short_uid)"
    by (simp add: addNewUser_eq u panel0_def panel_short_uid_def)
  have d: "db panel_short_uid [1] = Some (bucket_of uinfo_short)"
    "db panel_short_uid (1 # replicate 31 0) = None"
    by (simp_all add: panel_short_uid_def panel0_def)
  have "readFields (db panel_short_uid) [1] [1] = Return uinfo_short"
    using readFields_bucket_of [of "db panel_short_uid" "[1]" uinfo_short "[1]"] d(1)
    by (simp add: uinfo_short_def)
  with d have "getUserInfo panel_short_uid [1] = Return (uinfo_short, None)"
    "getUserInfo panel_short_uid (1 # replicate 31 0) =
       Return (zeroUserInfo, Some ErrUserNotFound)"
    by (simp_all add: getUserInfo_eq bindO_def)
  with k add show ?thesis by simp
qed

text \<open>
  C9, amended. For every UID shorter than 32 bytes: its cache key is the UID followed by
  zero bytes up to 32 bytes, and the key of that 32-byte form is itself, so the short UID
  and its padded form address the same cache entry in \<open>getActiveUser\<close>,
  \<open>delActiveUser\<close> and the cache lookup of \<open>GetAndActivateUser\<close>. The bucket of the
  store is named by the UID's bytes as they are passed: a user created under the short
  UID is read back under the short UID, and is not found under the padded form.
\<close>

theorem short_uid_cache_key_and_bucket:
  assumes "length uid < 32"
  shows "toArrUID uid = uid @ replicate (32 - length uid) 0 \<and>
         length (toArrUID uid) = 32 \<and>
         toArrUID (toArrUID uid) = toArrUID uid \<and>
         toArrUID uid \<noteq> uid \<and>
         getActiveUser up (toArrUID uid) = getActiveUser up uid \<and>
         delActiveUser up (toArrUID uid) = delActiveUser up uid \<and>
         (\<forall>u. activeUsers up (toArrUID uid) = Some u \<longrightarrow>
              GetAndActivateUser up uid = Return (Inr u, up) \<and>
              GetAndActivateUser up (toArrUID uid) = Return (Inr u, up)) \<and>
         (\<forall>uinfo. UID uinfo = uid \<and> uid \<noteq> [] \<and> db up uid = None \<and>
                  db up (toArrUID uid) = None \<longrightarrow>
              addNewUser up uinfo =
                Return (None, up\<lparr>db := (db up)(uid \<mapsto> bucket_of uinfo)\<rparr>) \<and>
              getUserInfo (up\<lparr>db := (db up)(uid \<mapsto> bucket_of uinfo)\<rparr>) uid =
                Return (uinfo, None) \<and>
              getUserInfo (up\<lparr>db := (db up)(uid \<mapsto> bucket_of uinfo)\<rparr>) (toArrUID uid) =
                Return (zeroUserInfo, Some ErrUserNotFound))"
proof -
  have k: "toArrUID uid = uid @ replicate (32 - length uid) 0"
    using assms by (simp add: toArrUID_def)
  have len: "length (toArrUID uid) = 32"
    using assms by (simp add: toArrUID_def)
  have idem: "toArrUID (toArrUID uid) = toArrUID uid"
    using len by (simp add: toArrUID_def)
  have ne: "toArrUID uid \<noteq> uid"
    using len assms by auto
  have cached: "GetAndActivateUser up uid = Return (Inr u, up) \<and>
                GetAndActivateUser up (toArrUID uid) = Return (Inr u, up)"
    if "activeUsers up (toArrUID uid) = Some u" for u
    using that by (simp add: GetAndActivateUser_eq idem)
  have store: "addNewUser up uinfo =
                Return (None, up\<lparr>db := (db up)(uid \<mapsto> bucket_of uinfo)\<rparr>) \<and>
              getUserInfo (up\<lparr>db := (db up)(uid \<mapsto> bucket_of uinfo)\<rparr>) uid =
                Return (uinfo, None) \<and>
              getUserInfo (up\<lparr>db := (db up)(uid \<mapsto> bucket_of uinfo)\<rparr>) (toArrUID uid) =
                Return (zeroUserInfo, Some ErrUserNotFound)"
    if a: "UID uinfo = uid \<and> uid \<noteq> [] \<and> db up uid = None \<and> db up (toArrUID uid) = None"
    for uinfo
  proof -
    let ?up' = "up\<lparr>db := (db up)(uid \<mapsto> bucket_of uinfo)\<rparr>"
    have "readFields (db ?up') uid uid = Return (uinfo\<lparr>UID := uid\<rparr>)"
      by (rule readFields_bucket_of) simp
    with a have "getUserInfo ?up' uid = Return (uinfo, None)"
      by (auto simp: getUserInfo_eq bindO_def)
    moreover from a ne have "getUserInfo ?up' (toArrUID uid) =
        Return (zeroUserInfo, Some ErrUserNotFound)"
      by (simp add: getUserInfo_eq)
    moreover from a have "addNewUser up uinfo = Return (None, ?up')"
      by (auto simp: addNewUser_eq)
    ultimately show ?thesis by simp
  qed
  show ?thesis
  proof (intro conjI allI impI)
    show "toArrUID uid = uid @ replicate (32 - length uid) 0" by (rule k)
    show "length (toArrUID uid) = 32" by (rule len)
    show "toArrUID (toArrUID uid) = toArrUID uid" by (rule idem)
    show "toArrUID uid \<noteq> uid" by (rule ne)
    show "getActiveUser up (toArrUID uid) = getActiveUser up uid"
      by (simp add: getActiveUser_def idem)
    show "delActiveUser up (toArrUID uid) = delActiveUser up uid"
      by (simp add: delActiveUser_def idem)
    show "GetAndActivateUser up uid = Return (Inr u, up)"
      if "activeUsers up (toArrUID uid) = Some u" for u
      using cached [OF that] by (rule conjunct1)
    show "GetAndActivateUser up (toArrUID uid) = Return (Inr u, up)"
      if "activeUsers up (toArrUID uid) = Some u" for u
      using cached [OF that] by (rule conjunct2)
    show "addNewUser up uinfo = Return (None, up\<lparr>db := (db up)(uid \<mapsto> bucket_of uinfo)\<rparr>)"
      if "UID uinfo = uid \<and> uid \<noteq> [] \<and> db up uid = None \<and> db up (toArrUID uid) = None"
      for uinfo
      using store [OF that] by (rule conjunct1)
    show "getUserInfo (up\<lparr>db := (db up)(uid \<mapsto> bucket_of uinfo)\<rparr>) uid = Return (uinfo, None)"
      if "UID uinfo = uid \<and> uid \<noteq> [] \<and> db up uid = None \<and> db up (toArrUID uid) = None"
      for uinfo
      using store [OF that] by (rule conjunct2 [THEN conjunct1])
    show "getUserInfo (up\<lparr>db := (db up)(uid \<mapsto> bucket_of uinfo)\<rparr>) (toArrUID uid) =
            Return (zeroUserInfo, Some ErrUserNotFound)"
      if "UID uinfo = uid \<and> uid \<noteq> [] \<and> db up uid = None \<and> db up (toArrUID uid) = None"
      for uinfo
      using store [OF that] by (rule conjunct2 [THEN conjunct2])
  qed
qed

theorem short_uid_cache_key_and_bucket_witness:
  "length [1 :: byte] < 32 \<and>
   toArrUID [1] = [1] @ replicate (32 - length [1 :: byte]) 0 \<and>
   getActiveUser panel0 (toArrUID [1]) = getActiveUser panel0 [1] \<and>
   UID uinfo_short = [1] \<and> db panel0 [1] = None \<and> db panel0 (toArrUID [1]) = None \<and>
   addNewUser panel0 uinfo_short =
     Return (None, panel0\<lparr>db := (db panel0)([1] \<mapsto> bucket_of uinfo_short)\<rparr>) \<and>
   getUserInfo (panel0\<lparr>db := (db panel0)([1] \<mapsto> bucket_of uinfo_short)\<rparr>) [1] =
     Return (uinfo_short, None) \<and>
   getUserInfo (panel0\<lparr>db := (db panel0)([1] \<mapsto> bucket_of uinfo_short)\<rparr>) (toArrUID [1]) =
     Return (zeroUserInfo, Some ErrUserNotFound) \<and>
   activeUsers
     (panel0\<lparr>heap := [MakeUser uinfo_short], activeUsers := [toArrUID [1] \<mapsto> 0]\<rparr>)
     (toArrUID [1]) = Some 0 \<and>
   GetAndActivateUser
     (panel0\<lparr>heap := [MakeUser uinfo_short], activeUsers := [toArrUID [1] \<mapsto> 0]\<rparr>) [1] =
     Return (Inr 0,
       panel0\<lparr>heap := [MakeUser uinfo_short], activeUsers := [toArrUID [1] \<mapsto> 0]\<rparr>) \<and>
   GetAndActivateUser
     (panel0\<lparr>heap := [MakeUser uinfo_short], activeUsers := [toArrUID [1] \<mapsto> 0]\<rparr>)
     (toArrUID [1]) =
     Return (Inr 0,
       panel0\<lparr>heap := [MakeUser uinfo_short], activeUsers := [toArrUID [1] \<mapsto> 0]\<rparr>)"
proof -
  have h: "length [1 :: byte] < 32" by simp
  have u: "UID uinfo_short = [1]" by (simp add: uinfo_short_def)
  have d: "db panel0 [1] = None" "db panel0 (toArrUID [1]) = None"
    by (simp_all add: panel0_def)
  note T = short_uid_cache_key_and_bucket [OF h, of panel0]
  from T have c1: "toArrUID [1] = [1] @ replicate (32 - length [1 :: byte]) 0"
    "getActiveUser panel0 (toArrUID [1]) = getActiveUser panel0 [1]"
    by blast+
  from T u d have c2: "addNewUser panel0 uinfo_short =
     Return (None, panel0\<lparr>db := (db panel0)([1] \<mapsto> bucket_of uinfo_short)\<rparr>)"
    "getUserInfo (panel0\<lparr>db := (db panel0)([1] \<mapsto> bucket_of uinfo_short)\<rparr>) [1] =
     Return (uinfo_short, None)"
    "getUserInfo (panel0\<lparr>db := (db panel0)([1] \<mapsto> bucket_of uinfo_short)\<rparr>) (toArrUID [1]) =
     Return (zeroUserInfo, Some ErrUserNotFound)"
    by auto
  let ?pa = "panel0\<lparr>heap := [MakeUser uinfo_short], activeUsers := [toArrUID [1] \<mapsto> 0]\<rparr>"
  have a: "activeUsers ?pa (toArrUID [1]) = Some 0" by simp
  from short_uid_cache_key_and_bucket [OF h, of ?pa] a
  have c3: "GetAndActivateUser ?pa [1] = Return (Inr 0, ?pa)"
    "GetAndActivateUser ?pa (toArrUID [1]) = Return (Inr 0, ?pa)"
    by blast+
  show ?thesis
    using h c1 u d c2 a c3 by (intro conjI) assumption+
qed

text \<open>
  C10. For every UID, a \<open>delUser\<close> that returns \<^verbatim>\<open>nil\<close> changes the store (the UID's
  bucket is gone) and the file system (the backup file) and nothing else: the cache's map
  and the live users are as before, so \<open>getActiveUser\<close> gives the same answer for every
  UID, and for a UID that is in the cache it still returns the same pointer to the same
  live \<open>User\<close>; the entry goes only with \<open>delActiveUser\<close>.
\<close>

theorem delUser_leaves_cache:
  assumes "delUser up now uid = Return (None, up')"
  shows "activeUsers up' = activeUsers up \<and> heap up' = heap up \<and> bakRoot up' = bakRoot up \<and>
         db up' = (db up)(uid := None) \<and>
         files up' = (files up)(bakPath_of up now uid := File (db up)) \<and>
         (\<forall>v. getActiveUser up' v = getActiveUser up v) \<and>
         (\<forall>u. getActiveUser up uid = Some u \<longrightarrow>
              getActiveUser up' uid = Some u \<and> heap up' ! u = heap up ! u) \<and>
         getActiveUser (delActiveUser up' uid) uid = None"
proof -
  from assms have up': "up' = up\<lparr>files := (files up)(bakPath_of up now uid := File (db up)),
                                 db := (db up)(uid := None)\<rparr>"
    by (auto simp: delUser_eq split: fentry.splits option.splits)
  show ?thesis
    unfolding up' by (simp add: getActiveUser_def delActiveUser_def)
qed

theorem delUser_leaves_cache_witness:
  "delUser panel1_active 1700000000 (replicate 32 1) =
     Return (None,
       panel1_active\<lparr>files := (files panel1_active)
                        (bakPath_of panel1_active 1700000000 (replicate 32 1) :=
                           File (db panel1_active)),
                     db := (db panel1_active)(replicate 32 1 := None)\<rparr>) \<and>
   getActiveUser panel1_active (replicate 32 1) = Some 0 \<and>
   getActiveUser
     (panel1_active\<lparr>files := (files panel1_active)
                        (bakPath_of panel1_active 1700000000 (replicate 32 1) :=
                           File (db panel1_active)),
                     db := (db panel1_active)(replicate 32 1 := None)\<rparr>)
     (replicate 32 1) = Some 0 \<and>
   heap
     (panel1_active\<lparr>files := (files panel1_active)
                        (bakPath_of panel1_active 1700000000 (replicate 32 1) :=
                           File (db panel1_active)),
                     db := (db panel1_active)(replicate 32 1 := None)\<rparr>) ! 0 =
     MakeUser uinfo1"
proof -
  let ?uid = "replicate 32 (1 :: byte)"
  let ?up' = "panel1_active\<lparr>files := (files panel1_active)
                        (bakPath_of panel1_active 1700000000 ?uid := File (db panel1_active)),
                     db := (db panel1_active)(?uid := None)\<rparr>"
  have f: "files panel1_active (bakPath_of panel1_active 1700000000 ?uid) = NoFile"
    by (simp add: panel1_active_def panel1_def panel0_def)
  have d: "db panel1_active ?uid = Some (bucket_of uinfo1)"
    by (simp add: panel1_active_def panel1_def panel0_def uinfo1_def)
  have h: "delUser panel1_active 1700000000 ?uid = Return (None, ?up')"
    by (simp add: delUser_eq f d)
  have g: "getActiveUser panel1_active ?uid = Some 0"
    by (simp add: getActiveUser_def toArrUID_def panel1_active_def)
  have m: "heap panel1_active ! 0 = MakeUser uinfo1"
    by (simp add: panel1_active_def)
  from delUser_leaves_cache [OF h] g m
  have "getActiveUser ?up' ?uid = Some 0" "heap ?up' ! 0 = MakeUser uinfo1"
    by auto
  with h g show ?thesis by (intro conjI) assumption+
qed

section \<open>An invariant of the cache\<close>

text \<open>
  The cache of a new panel is empty, so \<open>cache_ok\<close> holds there, and every run of calls
  that returns keeps it: each pointer in the cache is a live user whose \<open>arrUID\<close> is
  the key it is stored under.
\<close>

theorem cache_ok_invariant:
  "(activeUsers up = Map.empty \<longrightarrow> cache_ok up) \<and>
   (cache_ok up \<and> execs cs up = Return up' \<longrightarrow> cache_ok up')"
proof (intro conjI impI)
  assume "activeUsers up = Map.empty"
  then show "cache_ok up" by (simp add: cache_ok_def)
next
  assume "cache_ok up \<and> execs cs up = Return up'"
  then show "cache_ok up'" using execs_cache_ok by blast
qed

theorem cache_ok_invariant_witness:
  "activeUsers panel1 = Map.empty \<and> cache_ok panel1 \<and>
   execs [CallGetAndActivateUser (replicate 32 1), CallSetUpCredit (replicate 32 1) 5]
     panel1 =
     Return (panel1\<lparr>db := (db panel1)
                        (replicate 32 1 \<mapsto> (bucket_of uinfo1)(''UpCredit'' \<mapsto> i64ToB 5)),
                    heap := [User_setUpCredit (MakeUser uinfo1) 5],
                    activeUsers := [replicate 32 1 \<mapsto> 0]\<rparr>) \<and>
   cache_ok
     (panel1\<lparr>db := (db panel1)
                 (replicate 32 1 \<mapsto> (bucket_of uinfo1)(''UpCredit'' \<mapsto> i64ToB 5)),
             heap := [User_setUpCredit (MakeUser uinfo1) 5],
             activeUsers := [replicate 32 1 \<mapsto> 0]\<rparr>)"
proof -
  let ?uid = "replicate 32 (1 :: byte)"
  let ?cs = "[CallGetAndActivateUser ?uid, CallSetUpCredit ?uid 5]"
  let ?up' = "panel1\<lparr>db := (db panel1)
                        (?uid \<mapsto> (bucket_of uinfo1)(''UpCredit'' \<mapsto> i64ToB 5)),
                    heap := [User_setUpCredit (MakeUser uinfo1) 5],
                    activeUsers := [?uid \<mapsto> 0]\<rparr>"
  have e: "activeUsers panel1 = Map.empty" by (simp add: panel1_def panel0_def)
  have k: "toArrUID ?uid = ?uid" by (simp add: toArrUID_def)
  have d: "db panel1 ?uid = Some (bucket_of uinfo1)"
    by (simp add: panel1_def panel0_def uinfo1_def)
  have h: "heap panel1 = []" by (simp add: panel1_def panel0_def)
  have r: "readFields (db panel1) ?uid ?uid = Return uinfo1"
    using readFields_bucket_of [of "db panel1" ?uid uinfo1 ?uid] d by (simp add: uinfo1_def)
  have run: "execs ?cs panel1 = Return ?up'"
    by (simp add: stateAfter_def GetAndActivateUser_eq setUpCredit_def updateDBEntryInt64_eq
        getActiveUser_def onUser_def bindO_def e k d h r)
  from cache_ok_invariant [of panel1 ?cs ?up'] e run
  have "cache_ok panel1" "cache_ok ?up'" by blast+
  with e run show ?thesis by (intro conjI) assumption+
qed

section \<open>Creating a user twice\<close>

text \<open>
  \<open>addNewUser\<close> on a UID that already has a bucket returns bolt's \<open>ErrBucketExists\<close>,
  and on an empty UID \<open>ErrBucketNameRequired\<close>; in both cases the panel, the existing
  bucket included, is unchanged.
\<close>

theorem addNewUser_refuses:
  "(UID u \<noteq> [] \<and> db up (UID u) = Some m \<longrightarrow>
      addNewUser up u = Return (Some ErrBucketExists, up)) \<and>
   (UID u = [] \<longrightarrow> addNewUser up u = Return (Some ErrBucketNameRequired, up))"
proof (intro conjI impI)
  assume "UID u \<noteq> [] \<and> db up (UID u) = Some m"
  then show "addNewUser up u = Return (Some ErrBucketExists, up)"
    by (simp add: addNewUser_eq)
next
  assume "UID u = []"
  then show "addNewUser up u = Return (Some ErrBucketNameRequired, up)"
    by (simp add: addNewUser_eq)
qed

theorem addNewUser_refuses_witness:
  "UID uinfo1 \<noteq> [] \<and> db panel1 (UID uinfo1) = Some (bucket_of uinfo1) \<and>
   addNewUser panel1 uinfo1 = Return (Some ErrBucketExists, panel1) \<and>
   UID zeroUserInfo = [] \<and>
   addNewUser panel1 zeroUserInfo = Return (Some ErrBucketNameRequired, panel1)"
proof -
  have h: "UID uinfo1 \<noteq> []" "db panel1 (UID uinfo1) = Some (bucket_of uinfo1)"
    "UID zeroUserInfo = []"
    by (simp_all add: uinfo1_def panel1_def panel0_def zeroUserInfo_def)
  from addNewUser_refuses [of uinfo1 panel1 "bucket_of uinfo1"] h
  have c1: "addNewUser panel1 uinfo1 = Return (Some ErrBucketExists, panel1)" by blast
  from addNewUser_refuses [of zeroUserInfo panel1 "bucket_of uinfo1"] h
  have c2: "addNewUser panel1 zeroUserInfo = Return (Some ErrBucketNameRequired, panel1)"
    by blast
  show ?thesis using h c1 c2 by (intro conjI) assumption+
qed

section \<open>Deleting a user, by what is at the backup path\<close>

text \<open>
  What \<open>delUser\<close> does is decided by what \<^verbatim>\<open>os.Stat\<close> and \<^verbatim>\<open>os.Create\<close> find at the
  path \<open>bakRoot/{unix seconds}_pre_del_{base64Std(UID)}.bak\<close>. When a file is already
  there the call returns an error and the panel, its bucket included, is unchanged. When
  there is none and one can be created, the file receives the image of the whole store
  as it is before the deletion, so with the UID's bucket in it, and only then the bucket
  is deleted; a UID without a bucket gets bolt's \<open>ErrBucketNotFound\<close> after the backup.
  When the file cannot be created or examined, the call returns the error and nothing is
  deleted.
\<close>

theorem delUser_backup_then_delete:
  "bakPath_of up now uid =
     bakRoot up @ ''/'' @ FormatInt10 now @ ''_pre_del_'' @ EncodeToString uid @ ''.bak'' \<and>
   (files up (bakPath_of up now uid) = File c \<longrightarrow>
      delUser up now uid = Return (Some ErrOverwriteBackup, up)) \<and>
   (files up (bakPath_of up now uid) = NoFile \<and> db up uid = Some m \<longrightarrow>
      delUser up now uid =
        Return (None, up\<lparr>files := (files up)(bakPath_of up now uid := File (db up)),
                         db := (db up)(uid := None)\<rparr>)) \<and>
   (files up (bakPath_of up now uid) = NoFile \<and> db up uid = None \<longrightarrow>
      delUser up now uid =
        Return (Some ErrBucketNotFound,
                up\<lparr>files := (files up)(bakPath_of up now uid := File (db up))\<rparr>)) \<and>
   (files up (bakPath_of up now uid) = NoDir \<longrightarrow>
      delUser up now uid = Return (Some ErrCreateFile, up)) \<and>
   (files up (bakPath_of up now uid) = NoAccess \<longrightarrow>
      delUser up now uid = Return (Some ErrInvalidFile, up))"
proof (intro conjI impI)
  show "bakPath_of up now uid =
          bakRoot up @ ''/'' @ FormatInt10 now @ ''_pre_del_'' @ EncodeToString uid @ ''.bak''"
    by (simp add: bakPath_of_def)
next
  assume "files up (bakPath_of up now uid) = File c"
  then show "delUser up now uid = Return (Some ErrOverwriteBackup, up)"
    by (simp add: delUser_eq)
next
  assume "files up (bakPath_of up now uid) = NoFile \<and> db up uid = Some m"
  then show "delUser up now uid =
               Return (None, up\<lparr>files := (files up)(bakPath_of up now uid := File (db up)),
                                db := (db up)(uid := None)\<rparr>)"
    by (simp add: delUser_eq)
next
  assume "files up (bakPath_of up now uid) = NoFile \<and> db up uid = None"
  then show "delUser up now uid =
               Return (Some ErrBucketNotFound,
                       up\<lparr>files := (files up)(bakPath_of up now uid := File (db up))\<rparr>)"
    by (simp add: delUser_eq)
next
  assume "files up (bakPath_of up now uid) = NoDir"
  then show "delUser up now uid = Return (Some ErrCreateFile, up)"
    by (simp add: delUser_eq)
next
  assume "files up (bakPath_of up now uid) = NoAccess"
  then show "delUser up now uid = Return (Some ErrInvalidFile, up)"
    by (simp add: delUser_eq)
qed

theorem delUser_backup_then_delete_witness:
  "bakPath_of panel2 1700000000 (replicate 32 2) =
     ''db-backup/1700000000_pre_del_AgICAgICAgICAgICAgICAgICAgICAgICAgICAgICAgI=.bak'' \<and>
   (files panel_collision (bakPath_of panel_collision 1700000000 (replicate 32 2)) =
      File Map.empty \<and>
    delUser panel_collision 1700000000 (replicate 32 2) =
      Return (Some ErrOverwriteBackup, panel_collision) \<and>
    db panel_collision (replicate 32 2) = Some (bucket_of uinfo2)) \<and>
   (files panel2 (bakPath_of panel2 1700000000 (replicate 32 2)) = NoFile \<and>
    db panel2 (replicate 32 2) = Some (bucket_of uinfo2) \<and>
    delUser panel2 1700000000 (replicate 32 2) =
      Return (None,
        panel2\<lparr>files := (files panel2)
                  (bakPath_of panel2 1700000000 (replicate 32 2) := File (db panel2)),
               db := (db panel2)(replicate 32 2 := None)\<rparr>)) \<and>
   (files panel2 (bakPath_of panel2 1700000000 (replicate 32 1)) = NoFile \<and>
    db panel2 (replicate 32 1) = None \<and>
    delUser panel2 1700000000 (replicate 32 1) =
      Return (Some ErrBucketNotFound,
        panel2\<lparr>files := (files panel2)
                  (bakPath_of panel2 1700000000 (replicate 32 1) := File (db panel2))\<rparr>)) \<and>
   (files (panel2\<lparr>files := \<lambda>_. NoDir\<rparr>)
      (bakPath_of (panel2\<lparr>files := \<lambda>_. NoDir\<rparr>) 1700000000 (replicate 32 2)) = NoDir \<and>
    delUser (panel2\<lparr>files := \<lambda>_. NoDir\<rparr>) 1700000000 (replicate 32 2) =
      Return (Some ErrCreateFile, panel2\<lparr>files := \<lambda>_. NoDir\<rparr>)) \<and>
   (files (panel2\<lparr>files := \<lambda>_. NoAccess\<rparr>)
      (bakPath_of (panel2\<lparr>files := \<lambda>_. NoAccess\<rparr>) 1700000000 (replicate 32 2)) = NoAccess \<and>
    delUser (panel2\<lparr>files := \<lambda>_. NoAccess\<rparr>) 1700000000 (replicate 32 2) =
      Return (Some ErrInvalidFile, panel2\<lparr>files := \<lambda>_. NoAccess\<rparr>))"
proof -
  let ?uid = "replicate 32 (2 :: byte)"
  let ?p = "''db-backup/1700000000_pre_del_AgICAgICAgICAgICAgICAgICAgICAgICAgICAgICAgI=.bak''"
  have t: "FormatInt10 1700000000 = ''1700000000''"
    by (simp add: FormatInt10_def formatNat.simps digit_char_def)
  have e3: "EncodeToString (2 # 2 # 2 # src) = ''AgIC'' @ EncodeToString src" for src
    by (simp add: b64_def encodeStd_def)
  have e2: "EncodeToString [2, 2] = ''AgI=''"
    by (simp add: b64_def encodeStd_def)
  have e: "EncodeToString ?uid = ''AgICAgICAgICAgICAgICAgICAgICAgICAgICAgICAgI=''"
    by (simp add: numeral_eq_Suc e3 e2 del: EncodeToString.simps)
  have root: "bakRoot panel2 = ''db-backup''" "bakRoot panel_collision = ''db-backup''"
    by (simp_all add: panel2_def panel_collision_def panel0_def)
  have p2: "bakPath_of panel2 1700000000 ?uid = ?p"
    using delUser_backup_then_delete [of panel2 1700000000 ?uid "Map.empty" "bucket_of uinfo2"]
    by (simp add: t e root)
  have pc: "bakPath_of panel_collision 1700000000 ?uid = ?p"
    using delUser_backup_then_delete [of panel_collision 1700000000 ?uid "Map.empty" "bucket_of uinfo2"]
    by (simp add: t e root)
  have f1: "files panel_collision (bakPath_of panel_collision 1700000000 ?uid) = File Map.empty"
    unfolding pc by (simp add: panel_collision_def)
  have d1: "db panel_collision ?uid = Some (bucket_of uinfo2)"
    by (simp add: panel_collision_def panel2_def panel0_def uinfo2_def)
  have f2: "files panel2 (bakPath_of panel2 1700000000 uid) = NoFile" for uid
    by (simp add: panel2_def panel0_def)
  have d2: "db panel2 ?uid = Some (bucket_of uinfo2)" "db panel2 (replicate 32 1) = None"
    by (simp_all add: panel2_def panel0_def uinfo2_def)
  have f3: "files (panel2\<lparr>files := \<lambda>_. NoDir\<rparr>)
      (bakPath_of (panel2\<lparr>files := \<lambda>_. NoDir\<rparr>) 1700000000 ?uid) = NoDir"
    "files (panel2\<lparr>files := \<lambda>_. NoAccess\<rparr>)
      (bakPath_of (panel2\<lparr>files := \<lambda>_. NoAccess\<rparr>) 1700000000 ?uid) = NoAccess"
    by simp_all
  from delUser_backup_then_delete [of panel_collision 1700000000 ?uid "Map.empty" "bucket_of uinfo2"] f1
  have c1: "delUser panel_collision 1700000000 ?uid = Return (Some ErrOverwriteBackup, panel_collision)"
    by blast
  from delUser_backup_then_delete [of panel2 1700000000 ?uid "Map.empty" "bucket_of uinfo2"] f2 d2
  have c2: "delUser panel2 1700000000 ?uid =
      Return (None,
        panel2\<lparr>files := (files panel2)(bakPath_of panel2 1700000000 ?uid := File (db panel2)),
               db := (db panel2)(?uid := None)\<rparr>)"
    by blast
  from delUser_backup_then_delete [of panel2 1700000000 "replicate 32 1" "Map.empty" "bucket_of uinfo2"] f2 d2
  have c3: "delUser panel2 1700000000 (replicate 32 1) =
      Return (Some ErrBucketNotFound,
        panel2\<lparr>files := (files panel2)
                  (bakPath_of panel2 1700000000 (replicate 32 1) := File (db panel2))\<rparr>)"
    by blast
  from delUser_backup_then_delete [of "panel2\<lparr>files := \<lambda>_. NoDir\<rparr>" 1700000000 ?uid "Map.empty" "bucket_of uinfo2"] f3
  have c4: "delUser (panel2\<lparr>files := \<lambda>_. NoDir\<rparr>) 1700000000 ?uid =
      Return (Some ErrCreateFile, panel2\<lparr>files := \<lambda>_. NoDir\<rparr>)"
    by blast
  from delUser_backup_then_delete [of "panel2\<lparr>files := \<lambda>_. NoAccess\<rparr>" 1700000000 ?uid "Map.empty" "bucket_of uinfo2"] f3
  have c5: "delUser (panel2\<lparr>files := \<lambda>_. NoAccess\<rparr>) 1700000000 ?uid =
      Return (Some ErrInvalidFile, panel2\<lparr>files := \<lambda>_. NoAccess\<rparr>)"
    by blast
  show ?thesis
    using p2 f1 c1 d1 f2 [of ?uid] d2 c2 f2 [of "replicate 32 1"] c3 f3 c4 c5
    by (intro conjI) assumption+
qed

section \<open>The tick, bucket by bucket\<close>

text \<open>
  On a tick that visits the keys of the cache (in any order, the cache's pointers being
  live users that carry their key): the store afterwards is, bucket by bucket,
  \<open>flushed\<close>. A bucket named by the 32-byte key of an active user has \<^verbatim>\<open>UpCredit\<close> and
  \<^verbatim>\<open>DownCredit\<close> overwritten with the encodings of the user's live RxCredit and
  TxCredit, the other keys of the bucket kept; when no bucket has that name nothing is
  written for the user; buckets whose name is not a key of the cache are untouched;
  cache and live users are unchanged; and the tick returns, whatever the individual
  flushes returned. The two writes of one user are one \<open>db_Update\<close>: with the bucket it
  commits both, without it the closure's \<open>ErrUserNotFound\<close> leaves the store as it was.
  For a UID of 32 bytes the key is the UID.
\<close>

theorem updateCredits_flushes_each_user:
  assumes "cache_ok up" and "set order = dom (activeUsers up)"
  shows "updateCredits up order = Return (up\<lparr>db := flushed up\<rparr>) \<and>
         (\<forall>k u. activeUsers up k = Some u \<longrightarrow>
            (db up k = None \<longrightarrow> flushed up k = None) \<and>
            (\<forall>m. db up k = Some m \<longrightarrow>
               flushed up k =
                 Some (m(''UpCredit'' \<mapsto> i64ToB (GetRxCredit (heap up ! u)),
                         ''DownCredit'' \<mapsto> i64ToB (GetTxCredit (heap up ! u)))) \<and>
               Uint64 (b_Get (flushed up) k ''UpCredit'') = Return (GetRxCredit (heap up ! u)) \<and>
               Uint64 (b_Get (flushed up) k ''DownCredit'') =
                 Return (GetTxCredit (heap up ! u)))) \<and>
         (\<forall>name. activeUsers up name = None \<longrightarrow> flushed up name = db up name) \<and>
         (\<forall>d usr.
            db_Update d (flushCredits usr) =
              Return (case d (arrUID usr) of
                        None \<Rightarrow> (Some ErrUserNotFound, d)
                      | Some m \<Rightarrow>
                          (None, d(arrUID usr \<mapsto>
                                     m(''UpCredit'' \<mapsto> i64ToB (GetRxCredit usr),
                                       ''DownCredit'' \<mapsto> i64ToB (GetTxCredit usr)))))) \<and>
         (\<forall>uid. length uid = 32 \<longrightarrow> toArrUID uid = uid)"
proof (intro conjI allI impI)
  fix uid :: bytes
  assume "length uid = 32"
  then show "toArrUID uid = uid" by (simp add: toArrUID_def)
next
  show "updateCredits up order = Return (up\<lparr>db := flushed up\<rparr>)"
    using updateCredits_eq [OF assms(1), of order] flushed_all [OF assms(2)] by simp
next
  fix k u
  assume "activeUsers up k = Some u" "db up k = None"
  then show "flushed up k = None" by (simp add: flushed_def)
next
  fix k u m
  assume a: "activeUsers up k = Some u" "db up k = Some m"
  then show f: "flushed up k =
                 Some (m(''UpCredit'' \<mapsto> i64ToB (GetRxCredit (heap up ! u)),
                         ''DownCredit'' \<mapsto> i64ToB (GetTxCredit (heap up ! u))))"
    by (simp add: flushed_def)
  then show "Uint64 (b_Get (flushed up) k ''UpCredit'') = Return (GetRxCredit (heap up ! u))"
    and "Uint64 (b_Get (flushed up) k ''DownCredit'') = Return (GetTxCredit (heap up ! u))"
    by (simp_all add: b_Get_def Uint64_i64ToB)
next
  fix name
  assume "activeUsers up name = None"
  then show "flushed up name = db up name" by (simp add: flushed_def)
next
  fix d usr
  show "db_Update d (flushCredits usr) =
              Return (case d (arrUID usr) of
                        None \<Rightarrow> (Some ErrUserNotFound, d)
                      | Some m \<Rightarrow>
                          (None, d(arrUID usr \<mapsto>
                                     m(''UpCredit'' \<mapsto> i64ToB (GetRxCredit usr),
                                       ''DownCredit'' \<mapsto> i64ToB (GetTxCredit usr)))))"
    by (simp add: flush_step split: option.splits)
qed

theorem updateCredits_flushes_each_user_witness:
  "cache_ok panel_tick \<and>
   set [replicate 32 2, replicate 32 1] = dom (activeUsers panel_tick) \<and>
   updateCredits panel_tick [replicate 32 2, replicate 32 1] =
     Return (panel_tick\<lparr>db := flushed panel_tick\<rparr>) \<and>
   activeUsers panel_tick (replicate 32 2) = Some 1 \<and>
   db panel_tick (replicate 32 2) = None \<and>
   flushed panel_tick (replicate 32 2) = None \<and>
   activeUsers panel_tick (replicate 32 1) = Some 0 \<and>
   db panel_tick (replicate 32 1) = Some (bucket_of uinfo1) \<and>
   Uint64 (b_Get (flushed panel_tick) (replicate 32 1) ''UpCredit'') = Return 7000 \<and>
   Uint64 (b_Get (flushed panel_tick) (replicate 32 1) ''DownCredit'') = Return 15000 \<and>
   length (replicate 32 (1 :: byte)) = 32 \<and>
   toArrUID (replicate 32 1) = replicate 32 1"
proof -
  let ?k1 = "replicate 32 (1 :: byte)"
  let ?k2 = "replicate 32 (2 :: byte)"
  have k: "toArrUID ?k1 = ?k1" "toArrUID ?k2 = ?k2" by (simp_all add: toArrUID_def)
  have a1: "activeUsers panel_tick ?k1 = Some 0" "activeUsers panel_tick ?k2 = Some 1"
    by (simp_all add: panel_tick_def)
  have dm: "dom (activeUsers panel_tick) = {?k1, ?k2}"
    by (auto simp: panel_tick_def)
  have hp: "heap panel_tick = [MakeUser (uinfo1\<lparr>UpCredit := 7000, DownCredit := 15000\<rparr>),
                               MakeUser uinfo2]"
    by (simp add: panel_tick_def)
  have ok: "cache_ok panel_tick"
    unfolding cache_ok_def
  proof (intro allI impI)
    fix key u
    assume "activeUsers panel_tick key = Some u"
    then have "key = ?k1 \<and> u = 0 \<or> key = ?k2 \<and> u = 1"
      by (auto simp: panel_tick_def split: if_splits)
    then show "u < length (heap panel_tick) \<and> arrUID (heap panel_tick ! u) = key"
      by (auto simp: hp MakeUser_def uinfo1_def uinfo2_def k)
  qed
  have st: "set [?k2, ?k1] = dom (activeUsers panel_tick)"
    using dm by auto
  have d: "db panel_tick ?k2 = None" "db panel_tick ?k1 = Some (bucket_of uinfo1)"
    by (simp_all add: panel_tick_def panel1_def panel0_def uinfo1_def)
  have g: "GetRxCredit (heap panel_tick ! 0) = 7000" "GetTxCredit (heap panel_tick ! 0) = 15000"
    by (simp_all add: hp GetRxCredit_def GetTxCredit_def MakeUser_def)
  note T = updateCredits_flushes_each_user [OF ok st]
  from T have c1: "updateCredits panel_tick [?k2, ?k1] =
                     Return (panel_tick\<lparr>db := flushed panel_tick\<rparr>)"
    by blast
  from T a1(2) d(1) have c2: "flushed panel_tick ?k2 = None" by blast
  from T a1(1) d(2)
  have "Uint64 (b_Get (flushed panel_tick) ?k1 ''UpCredit'') =
          Return (GetRxCredit (heap panel_tick ! 0))"
    "Uint64 (b_Get (flushed panel_tick) ?k1 ''DownCredit'') =
          Return (GetTxCredit (heap panel_tick ! 0))"
    by blast+
  then have c3: "Uint64 (b_Get (flushed panel_tick) ?k1 ''UpCredit'') = Return 7000"
    "Uint64 (b_Get (flushed panel_tick) ?k1 ''DownCredit'') = Return 15000"
    unfolding g .
  have l: "length ?k1 = 32" by simp
  from T l have c4: "toArrUID ?k1 = ?k1" by blast
  show ?thesis
    using ok st c1 a1 d c2 c3 l c4 by (intro conjI) assumption+
qed

end
